theory Spec2Isabelle
  imports Main "HOL-Library.Sublist"
begin

section \<open>JavaScript values and truthiness\<close>

text \<open>
  Both source files rely on JavaScript coercions: truthiness (\<^verbatim>\<open>!x\<close>, \<^verbatim>\<open>a || b\<close>)
  and conversion to a string. Loosely typed values (web part properties, the id of a
  portfolio) are modelled by a small datatype of JavaScript primitives. Numbers are
  integers here; \<^verbatim>\<open>NaN\<close>, fractions and the exponent notation of very large numbers
  are outside the model.
\<close>

datatype jsval = Undefined | Null | Bool bool | Num int | Str string

fun truthy :: "jsval \<Rightarrow> bool" where
  "truthy Undefined = False"
| "truthy Null = False"
| "truthy (Bool b) = b"
| "truthy (Num n) = (n \<noteq> 0)"
| "truthy (Str s) = (s \<noteq> [])"

text \<open>\<^verbatim>\<open>a || b\<close>: the left operand when it is truthy, the right one otherwise.\<close>

definition js_or :: "jsval \<Rightarrow> jsval \<Rightarrow> jsval" where
  "js_or a b = (if truthy a then a else b)"

text \<open>Truthiness of a string-typed expression: only the empty string is falsy.\<close>

definition truthy_str :: "string \<Rightarrow> bool" where
  "truthy_str s = (s \<noteq> [])"

definition digit_char :: "nat \<Rightarrow> char" where
  "digit_char d = ''0123456789'' ! (d mod 10)"

fun string_of_nat :: "nat \<Rightarrow> string" where
  "string_of_nat n =
     (if n < 10 then [digit_char n] else string_of_nat (n div 10) @ [digit_char n])"

declare string_of_nat.simps [simp del]

definition string_of_int :: "int \<Rightarrow> string" where
  "string_of_int i =
     (if i < 0 then CHR ''-'' # string_of_nat (nat (- i)) else string_of_nat (nat i))"

text \<open>\<^verbatim>\<open>String(v)\<close>, which is also what string concatenation and
  \<^verbatim>\<open>String.prototype.replace\<close> apply to a primitive.\<close>

fun to_string :: "jsval \<Rightarrow> string" where
  "to_string Undefined = ''undefined''"
| "to_string Null = ''null''"
| "to_string (Bool b) = (if b then ''true'' else ''false'')"
| "to_string (Num n) = string_of_int n"
| "to_string (Str s) = s"

text \<open>
  A rejected promise or a thrown exception; an \<^verbatim>\<open>async\<close> function turns the
  latter into the former. \<open>RequestFailed\<close> stands for whatever reason the platform
  client rejects with.
\<close>

datatype rejection = RequestFailed string | TypeError string | ValueError string

section \<open>The \<^verbatim>\<open>format\<close> function of the string-format package\<close>

text \<open>
  \<^verbatim>\<open>getCacheOptions\<close> builds its cache key with \<^verbatim>\<open>format\<close> from the npm package
  string-format. The package is a dependency, not part of the repository; the model
  below follows its published behaviour. The template is scanned from left to right for
  doubled braces and for replacement fields (an opening brace, a lazily matched key, an
  optional \<^verbatim>\<open>!transformer\<close>, a closing brace, all on one line):
  \<^item> a doubled brace stands for one literal brace;
  \<^item> \<^verbatim>\<open>{key}\<close> or \<^verbatim>\<open>{key!transformer}\<close> is a replacement field; an empty key numbers
    the fields implicitly, and mixing implicit and explicit numbering throws;
  \<^item> the key is split at dots into a lookup path into the argument list; a path that
    does not start with digits gets \<^verbatim>\<open>'0'\<close> prepended;
  \<^item> the default export has no transformers, so naming one throws;
  \<^item> everything else is copied.
  Property lookup below the argument itself (\<^verbatim>\<open>{0.length}\<close>) depends on JavaScript's
  property tables and is taken as a parameter \<open>js\<close>.
\<close>

definition line_terminator :: "char \<Rightarrow> bool" where
  "line_terminator c = (c = CHR 0x0A \<or> c = CHR 0x0D)"

text \<open>The transformer name: the shortest non-empty run on the line that a closing brace
  follows; \<open>xf\<close> is the run read so far.\<close>

fun find_close :: "string \<Rightarrow> string \<Rightarrow> (string \<times> string) option" where
  "find_close xf [] = None"
| "find_close xf (c # cs) =
     (if c = CHR ''}'' then Some (xf, cs)
      else if line_terminator c then None
      else find_close (xf @ [c]) cs)"

fun match_transformer :: "string \<Rightarrow> (string \<times> string) option" where
  "match_transformer [] = None"
| "match_transformer (d # ds) = (if line_terminator d then None else find_close [d] ds)"

text \<open>
  The field after an opening brace: the key read so far is \<open>k\<close>; the result is the
  key, the transformer if any, and the rest of the template. An exclamation mark that
  no transformer can follow belongs to the key.
\<close>

fun match_field :: "string \<Rightarrow> string \<Rightarrow> (string \<times> string option \<times> string) option" where
  "match_field k [] = None"
| "match_field k (c # cs) =
     (if line_terminator c then None
      else if c = CHR ''!'' then
        (case match_transformer cs of
           Some (xf, rest) \<Rightarrow> Some (k, Some xf, rest)
         | None \<Rightarrow> match_field (k @ [c]) cs)
      else if c = CHR ''}'' then Some (k, None, cs)
      else match_field (k @ [c]) cs)"

text \<open>\<^verbatim>\<open>key.split('.')\<close>.\<close>

fun split_dots :: "string \<Rightarrow> string \<Rightarrow> string list" where
  "split_dots acc [] = [acc]"
| "split_dots acc (c # cs) =
     (if c = CHR ''.'' then acc # split_dots [] cs else split_dots (acc @ [c]) cs)"

text \<open>The test that a path component consists of decimal digits only.\<close>

definition all_digits :: "string \<Rightarrow> bool" where
  "all_digits s = (s \<noteq> [] \<and> list_all (\<lambda>c. c \<in> set ''0123456789'') s)"

text \<open>The value of a decimal digit: its position among the digits.\<close>

definition digit_value :: "char \<Rightarrow> nat" where
  "digit_value c = length (takeWhile (\<lambda>d. d \<noteq> c) ''0123456789'')"

text \<open>
  A property name is an index of the argument array only in canonical decimal form:
  \<^verbatim>\<open>'01' in args\<close> is false.
\<close>

definition array_index :: "string \<Rightarrow> nat option" where
  "array_index s =
     (if all_digits s \<and> (length s = 1 \<or> hd s \<noteq> CHR ''0'')
      then Some (foldl (\<lambda>n c. 10 * n + digit_value c) 0 s) else None)"

type_synonym property_lookup = "jsval \<Rightarrow> string list \<Rightarrow> jsval"

text \<open>The value at a lookup path; a failed lookup yields the empty string.\<close>

definition lookup :: "property_lookup \<Rightarrow> string list \<Rightarrow> jsval list \<Rightarrow> jsval" where
  "lookup js path args =
     (case path of
        [] \<Rightarrow> Str []
      | k # ks \<Rightarrow>
          (case array_index k of
             None \<Rightarrow> Str []
           | Some n \<Rightarrow>
               if n < length args then (if ks = [] then args ! n else js (args ! n) ks)
               else Str []))"

datatype numbering = UNDEFINED | IMPLICIT | EXPLICIT

definition resolve ::
  "property_lookup \<Rightarrow> jsval list \<Rightarrow> string list \<Rightarrow> string option \<Rightarrow> rejection + string" where
  "resolve js args path xf =
     (let v = lookup js (if all_digits (hd path) then path else ''0'' # path) args
      in case xf of
           None \<Rightarrow> Inr (to_string v)
         | Some t \<Rightarrow>
             Inl (ValueError (''no transformer named '' @ [CHR 0x22] @ t @ [CHR 0x22])))"

text \<open>The replacement of one field, with the numbering state and implicit index after it.\<close>

definition field_value ::
  "property_lookup \<Rightarrow> jsval list \<Rightarrow> numbering \<Rightarrow> nat \<Rightarrow> string \<Rightarrow> string option
     \<Rightarrow> rejection + (string \<times> numbering \<times> nat)" where
  "field_value js args state idx k xf =
     (if k \<noteq> [] then
        (if state = IMPLICIT
         then Inl (ValueError ''cannot switch from implicit to explicit numbering'')
         else map_sum id (\<lambda>v. (v, EXPLICIT, idx)) (resolve js args (split_dots [] k) xf))
      else
        (if state = EXPLICIT
         then Inl (ValueError ''cannot switch from explicit to implicit numbering'')
         else map_sum id (\<lambda>v. (v, IMPLICIT, idx + 1))
                (resolve js args (split_dots [] (string_of_nat idx)) xf)))"

text \<open>
  The scan. After a field it continues behind the closing brace, so the recursion is on
  a shorter text; that it terminates is shown below, before anything is proved about
  it.
\<close>

function format_from ::
  "property_lookup \<Rightarrow> jsval list \<Rightarrow> numbering \<Rightarrow> nat \<Rightarrow> string \<Rightarrow> rejection + string" where
  "format_from js args state idx [] = Inr []"
| "format_from js args state idx (c # cs) =
     (if (c = CHR ''{'' \<or> c = CHR ''}'') \<and> cs \<noteq> [] \<and> hd cs = c
      then map_sum id ((#) c) (format_from js args state idx (tl cs))
      else if c = CHR ''{'' then
        (case match_field [] cs of
           None \<Rightarrow> map_sum id ((#) c) (format_from js args state idx cs)
         | Some (k, xf, rest) \<Rightarrow>
             (case field_value js args state idx k xf of
                Inl e \<Rightarrow> Inl e
              | Inr (v, state', idx') \<Rightarrow>
                  map_sum id ((@) v) (format_from js args state' idx' rest)))
      else map_sum id ((#) c) (format_from js args state idx cs))"
  by pat_completeness auto

definition format :: "property_lookup \<Rightarrow> string \<Rightarrow> jsval list \<Rightarrow> rejection + string" where
  "format js template args = format_from js args UNDEFINED 0 template"

section \<open>data-adapter/index.ts: data\<close>

text \<open>
  \<^verbatim>\<open>ICachingOptions\<close> of the platform client; the expiration date is a point in time.
\<close>

record ICachingOptions =
  expiration :: nat
  key :: string

text \<open>
  The classes \<^verbatim>\<open>Portfolio\<close>, \<^verbatim>\<open>ProjectModel\<close> and \<^verbatim>\<open>ProjectStatusModel\<close>, the
  item interfaces and the list names are imported from \<^verbatim>\<open>../models\<close> and
  \<^verbatim>\<open>../config\<close>, which are not among the source files. Of a portfolio the adapter
  reads \<^verbatim>\<open>id\<close> and \<^verbatim>\<open>url\<close> (the field is called \<open>id_portfolio\<close> here, \<open>id\<close> being
  HOL's identity function).
\<close>

record Portfolio =
  id_portfolio :: jsval
  url :: string

text \<open>The private fields of the adapter; a \<^verbatim>\<open>Site\<close> object is represented by its URL.\<close>

record DataAdapter =
  cacheOptions :: "ICachingOptions option"
  site :: "string option"
  current :: "Portfolio option"
  cacheKeys :: "string list"

definition new_DataAdapter :: DataAdapter where
  "new_DataAdapter = \<lparr> cacheOptions = None, site = None, current = None, cacheKeys = [] \<rparr>"

text \<open>The list and field names of \<^verbatim>\<open>../config\<close>: constants whose values are not needed.\<close>

datatype list_name =
  CONFIG_LIST_NAME | PROJECTS_LIST_NAME | PROJECT_COLUMN_CONFIGURATION_LIST_NAME
  | PROJECT_STATUS_LIST_NAME | STATUS_SECTIONS_LIST_NAME

datatype field_name = PHASE_FIELD_NAME

text \<open>
  Requests to the platform, as the adapter's fluent calls build them:
  \<^verbatim>\<open>fields.getByInternalNameOrTitle(..).select(..).usingCaching(..)\<close>, the search query,
  and \<^verbatim>\<open>lists.getByTitle(..).items\<close> with \<^verbatim>\<open>select\<close>, \<^verbatim>\<open>expand\<close>, \<^verbatim>\<open>filter\<close>,
  \<^verbatim>\<open>top\<close>, \<^verbatim>\<open>orderBy\<close> and \<^verbatim>\<open>usingCaching\<close> (\<open>filter_q\<close> and \<open>top_q\<close> avoid
  HOL's \<open>filter\<close> and \<open>top\<close>).
\<close>

record field_request =
  field_internalNameOrTitle :: field_name
  field_select :: "string list"
  field_caching :: ICachingOptions

record search_query =
  Querytext :: string
  TrimDuplicates :: bool
  RowLimit :: nat
  SelectProperties :: "string list"

record items_request =
  site_url :: string
  list_title :: list_name
  select :: "string list"
  expand :: "string list"
  filter_q :: "string option"
  top_q :: nat
  orderBy :: "(string \<times> bool) option"
  caching :: ICachingOptions

text \<open>
  What the platform returns. Fields the adapter does not read are kept as a list of
  named values.
\<close>

type_synonym json_fields = "(string \<times> jsval) list"

record search_result =
  SiteId :: string
  Title :: string

record IProjectItem =
  GtSiteId :: string
  project_fields :: json_fields

record IProjectStatusItem =
  status_fields :: json_fields

record IStatusSectionItem =
  GtSecFieldName :: string
  GtSecIcon :: string

record portfolio_column =
  column_Title :: string
  GtInternalName :: string

record IPortfolioColumnConfigurationItem =
  GtPortfolioColumnColor :: string
  GtPortfolioColumnValue :: string
  GtPortfolioColumn :: portfolio_column

record ITerm =
  Name :: string
  LocalCustomProperties :: "string \<rightharpoonup> string"
  term_fields :: json_fields

text \<open>A phase of the result: a term reduced to the two picked fields.\<close>

record phase =
  phase_Name :: string
  phase_LocalCustomProperties :: "string \<rightharpoonup> string"

text \<open>
  An entry of the object \<^verbatim>\<open>getColumnConfigurations\<close> builds. Both properties are
  absent (\<open>None\<close>) in a fresh \<^verbatim>\<open>{}\<close>; neither is a property of
  \<^verbatim>\<open>Object.prototype\<close>.
\<close>

record column_configuration =
  name :: "string option"
  colors :: "(string \<rightharpoonup> string) option"

type_synonym column_configurations = "string \<rightharpoonup> column_configuration"

text \<open>
  The requests issued, each with its outcome (\<open>None\<close>: fulfilled): the trace of the
  adapter's effects on the platform.
\<close>

datatype request =
  SiteGet string
  | FieldGet field_request
  | Search search_query
  | ItemsGet items_request
  | TermsGet string

type_synonym call = "request \<times> rejection option"

text \<open>
  Everything outside the repository that a run depends on: the platform's answer to
  each request, the order in which the six concurrent promises of \<^verbatim>\<open>Promise.all\<close>
  settle (positions 0 to 5 of the array; positions not listed settle after the listed
  ones, in array order), and JavaScript property lookup for \<^verbatim>\<open>format\<close>.
\<close>

record world =
  site_get :: "string \<Rightarrow> rejection + string"
  field_get :: "field_request \<Rightarrow> rejection + string"
  search :: "search_query \<Rightarrow> rejection + search_result list"
  projects_get :: "items_request \<Rightarrow> rejection + IProjectItem list"
  status_get :: "items_request \<Rightarrow> rejection + IProjectStatusItem list"
  column_configurations_get ::
    "items_request \<Rightarrow> rejection + IPortfolioColumnConfigurationItem list"
  sections_get :: "items_request \<Rightarrow> rejection + IStatusSectionItem list"
  terms_get :: "string \<Rightarrow> rejection + ITerm list"
  settle_order :: "nat list"
  js_property :: property_lookup

text \<open>
  The adapter uses plain objects as dictionaries. A map holds the own properties of
  such an object; reading and assigning also involve \<^verbatim>\<open>Object.prototype\<close>, from
  which every plain object inherits the twelve properties below (ECMAScript with its
  Annex B, as in every browser). Eleven are functions and \<^verbatim>\<open>__proto__\<close> is an
  accessor whose getter returns the prototype object, so what is read through an
  inherited name is always truthy.
\<close>

definition object_prototype_names :: "string list" where
  "object_prototype_names =
     [''constructor'', ''hasOwnProperty'', ''isPrototypeOf'', ''propertyIsEnumerable'',
      ''toLocaleString'', ''toString'', ''valueOf'', ''__proto__'',
      ''__defineGetter__'', ''__defineSetter__'', ''__lookupGetter__'', ''__lookupSetter__'']"

text \<open>
  What \<^verbatim>\<open>obj[k]\<close> yields on a dictionary of strings when it is not \<^verbatim>\<open>undefined\<close>:
  the string of the own property \<open>k\<close>, or else the member of \<^verbatim>\<open>Object.prototype\<close>
  with that name.
\<close>

datatype property_value = OwnString string | PrototypeMember string

definition get_property :: "(string \<rightharpoonup> string) \<Rightarrow> string \<Rightarrow> property_value option" where
  "get_property obj k =
     (case obj k of
        Some v \<Rightarrow> Some (OwnString v)
      | None \<Rightarrow> if k \<in> set object_prototype_names then Some (PrototypeMember k) else None)"

fun truthy_property :: "property_value \<Rightarrow> bool" where
  "truthy_property (OwnString v) = truthy_str v"
| "truthy_property (PrototypeMember k) = True"

text \<open>
  The assignment \<^verbatim>\<open>obj[k] = v\<close> of a string to a plain object. The inherited
  properties are writable data properties, over which an assignment creates an own
  property, except \<^verbatim>\<open>__proto__\<close>: its setter ignores a value that is neither an
  object nor \<^verbatim>\<open>null\<close>, and nothing is stored.
\<close>

definition assign_property ::
  "(string \<rightharpoonup> string) \<Rightarrow> string \<Rightarrow> string \<Rightarrow> (string \<rightharpoonup> string)" where
  "assign_property obj k v = (if k = ''__proto__'' then obj else obj(k \<mapsto> v))"

text \<open>
  The operations of the two model classes that \<^verbatim>\<open>fetchData\<close> uses, taken as
  parameters: the constructors, the \<^verbatim>\<open>siteId\<close> properties and \<^verbatim>\<open>setTitle\<close>, which
  is handed whatever line 145 reads from the sites object.
\<close>

record ('sm, 'pm) models =
  newProjectStatusModel ::
    "IProjectStatusItem \<Rightarrow> column_configurations \<Rightarrow> IStatusSectionItem list \<Rightarrow> 'sm"
  status_siteId :: "'sm \<Rightarrow> string"
  newProjectModel :: "IProjectItem \<Rightarrow> 'sm list \<Rightarrow> 'pm"
  project_siteId :: "'pm \<Rightarrow> string"
  setTitle :: "'pm \<Rightarrow> property_value \<Rightarrow> 'pm"

record 'pm IDataAdapterFetchResult =
  projects :: "'pm list"
  phases :: "phase list"

fun rejection_of :: "rejection + 'a \<Rightarrow> rejection option" where
  "rejection_of (Inl e) = Some e"
| "rejection_of (Inr v) = None"

section \<open>data-adapter/index.ts: operations\<close>

text \<open>\<^verbatim>\<open>usingCaching\<close> (lines 17-23); the template literal appends the two placeholders.\<close>

definition usingCaching :: "nat \<Rightarrow> string \<Rightarrow> DataAdapter \<Rightarrow> DataAdapter" where
  "usingCaching exp alias a =
     a\<lparr> cacheOptions := Some \<lparr> expiration = exp, key = alias @ ''_{0}_{1}'' \<rparr> \<rparr>"

text \<open>
  \<^verbatim>\<open>getCacheOptions\<close> (lines 25-32). Reading \<^verbatim>\<open>this.cacheOptions.key\<close> before
  \<^verbatim>\<open>usingCaching\<close> or \<^verbatim>\<open>this.current.id\<close> before \<^verbatim>\<open>fetchData\<close> throws a TypeError.
\<close>

definition getCacheOptions ::
  "property_lookup \<Rightarrow> string \<Rightarrow> DataAdapter \<Rightarrow> (rejection + ICachingOptions) \<times> DataAdapter" where
  "getCacheOptions js k a =
     (case cacheOptions a of
        None \<Rightarrow> (Inl (TypeError ''cacheOptions is null''), a)
      | Some opts \<Rightarrow>
          (case current a of
             None \<Rightarrow> (Inl (TypeError ''current is undefined''), a)
           | Some cur \<Rightarrow>
               (case format js (key opts) [id_portfolio cur, Str k] of
                  Inl e \<Rightarrow> (Inl e, a)
                | Inr cacheKey \<Rightarrow>
                    (Inr (opts\<lparr> key := cacheKey \<rparr>),
                     a\<lparr> cacheKeys := cacheKeys a @ [cacheKey] \<rparr>))))"

text \<open>\<^verbatim>\<open>getPhaseFieldTermSetId\<close> (lines 34-43).\<close>

definition phase_field_request :: "ICachingOptions \<Rightarrow> field_request" where
  "phase_field_request opts =
     \<lparr> field_internalNameOrTitle = PHASE_FIELD_NAME,
       field_select = [''TermSetId''],
       field_caching = opts \<rparr>"

definition getPhaseFieldTermSetId ::
  "world \<Rightarrow> DataAdapter \<Rightarrow> (rejection + string) \<times> DataAdapter \<times> call list" where
  "getPhaseFieldTermSetId W a =
     (case getCacheOptions (js_property W) ''phase_term_set_id'' a of
        (Inl e, a') \<Rightarrow> (Inl e, a', [])
      | (Inr opts, a') \<Rightarrow>
          (let r = field_get W (phase_field_request opts)
           in (r, a', [(FieldGet (phase_field_request opts), rejection_of r)])))"

text \<open>
  \<^verbatim>\<open>searchSitesInHub\<close> (lines 45-57): the query, and the reducer of lines 52-55. The
  spread copies the own properties and the computed key of the object literal defines
  an own property, whatever its name.
\<close>

definition hub_query :: "string \<Rightarrow> search_query" where
  "hub_query siteId =
     \<lparr> Querytext = ''DepartmentId:{'' @ siteId @ ''} contentclass:STS_Site'',
       TrimDuplicates = False,
       RowLimit = 500,
       SelectProperties = [''SiteId'', ''Title''] \<rparr>"

definition sites_step :: "(string \<rightharpoonup> string) \<Rightarrow> search_result \<Rightarrow> (string \<rightharpoonup> string)" where
  "sites_step obj siteResult = obj(SiteId siteResult \<mapsto> Title siteResult)"

definition searchSitesInHub ::
  "world \<Rightarrow> string \<Rightarrow> (rejection + (string \<rightharpoonup> string)) \<times> call list" where
  "searchSitesInHub W siteId =
     (let r = search W (hub_query siteId)
      in (case r of
            Inl e \<Rightarrow> Inl e
          | Inr PrimarySearchResults \<Rightarrow> Inr (foldl sites_step Map.empty PrimarySearchResults),
          [(Search (hub_query siteId), rejection_of r)]))"

text \<open>
  \<^verbatim>\<open>getColumnConfigurations\<close> (lines 59-82). \<open>entry_update\<close> is lines 75-78 on the
  entry \<^verbatim>\<open>obj[key]\<close>, \<open>column_configuration_step\<close> the whole reducer. Line 78 is an
  assignment to the plain object \<^verbatim>\<open>colors\<close>. The entry of a key is read and written
  as an own property of \<^verbatim>\<open>obj\<close>: that is the code's behaviour for the internal names
  the request asks for, which start with \<^verbatim>\<open>GtStatus\<close> and so are not among
  \<open>object_prototype_names\<close>; the statement about the result of this reducer is made
  for responses that honour the request's filter.
\<close>

definition entry_update ::
  "column_configuration option \<Rightarrow> IPortfolioColumnConfigurationItem \<Rightarrow> column_configuration" where
  "entry_update entry item =
     (let e0 = (case entry of Some e \<Rightarrow> e | None \<Rightarrow> \<lparr> name = None, colors = None \<rparr>);
          e1 = e0\<lparr> name := Some (case name e0 of
                                    Some n \<Rightarrow> if truthy_str n then n
                                              else column_Title (GtPortfolioColumn item)
                                  | None \<Rightarrow> column_Title (GtPortfolioColumn item)) \<rparr>;
          e2 = e1\<lparr> colors := Some (case colors e1 of Some c \<Rightarrow> c | None \<Rightarrow> Map.empty) \<rparr>
      in e2\<lparr> colors := Some (assign_property
                                (case colors e2 of Some c \<Rightarrow> c | None \<Rightarrow> Map.empty)
                                (GtPortfolioColumnValue item) (GtPortfolioColumnColor item)) \<rparr>)"

definition column_configuration_step ::
  "column_configurations \<Rightarrow> IPortfolioColumnConfigurationItem \<Rightarrow> column_configurations" where
  "column_configuration_step obj item =
     (let k = GtInternalName (GtPortfolioColumn item)
      in obj(k \<mapsto> entry_update (obj k) item))"

definition column_configuration_request :: "string \<Rightarrow> ICachingOptions \<Rightarrow> items_request" where
  "column_configuration_request siteUrl opts =
     \<lparr> site_url = siteUrl,
       list_title = PROJECT_COLUMN_CONFIGURATION_LIST_NAME,
       select = [''GtPortfolioColumnColor'', ''GtPortfolioColumnValue'',
                 ''GtPortfolioColumn/Title'', ''GtPortfolioColumn/GtInternalName''],
       expand = [''GtPortfolioColumn''],
       filter_q = Some (''startswith(GtPortfolioColumn/GtInternalName,'' @ [CHR 0x27]
                        @ ''GtStatus'' @ [CHR 0x27] @ '')''),
       top_q = 500,
       orderBy = None,
       caching = opts \<rparr>"

definition getColumnConfigurations ::
  "world \<Rightarrow> DataAdapter \<Rightarrow> (rejection + column_configurations) \<times> DataAdapter \<times> call list" where
  "getColumnConfigurations W a =
     (case site a of
        None \<Rightarrow> (Inl (TypeError ''site is undefined''), a, [])
      | Some siteUrl \<Rightarrow>
          (case getCacheOptions (js_property W) ''column_configuration'' a of
             (Inl e, a') \<Rightarrow> (Inl e, a', [])
           | (Inr opts, a') \<Rightarrow>
               (let q = column_configuration_request siteUrl opts;
                    r = column_configurations_get W q
                in (case r of
                      Inl e \<Rightarrow> Inl e
                    | Inr items \<Rightarrow> Inr (foldl column_configuration_step Map.empty items),
                    a', [(ItemsGet q, rejection_of r)]))))"

text \<open>
  \<^verbatim>\<open>Promise.all\<close> over the six promises of lines 111-132: fulfilled with all values
  when all are fulfilled, otherwise rejected with the reason of the promise that
  rejects first in time. The last branch of \<open>promise_all6\<close> only makes the function
  total: when a promise is rejected, \<open>first_rejection\<close> finds a reason.
\<close>

definition first_rejection :: "nat list \<Rightarrow> rejection option list \<Rightarrow> rejection option" where
  "first_rejection order outcomes =
     (case List.map_filter (\<lambda>i. if i < length outcomes then outcomes ! i else None)
             (order @ [0..<length outcomes]) of
        [] \<Rightarrow> None
      | e # es \<Rightarrow> Some e)"

definition promise_all6 ::
  "nat list \<Rightarrow> rejection + 'a \<Rightarrow> rejection + 'b \<Rightarrow> rejection + 'c \<Rightarrow> rejection + 'd
     \<Rightarrow> rejection + 'e \<Rightarrow> rejection + 'f \<Rightarrow> rejection + ('a \<times> 'b \<times> 'c \<times> 'd \<times> 'e \<times> 'f)" where
  "promise_all6 order p1 p2 p3 p4 p5 p6 =
     (case (p1, p2, p3, p4, p5, p6) of
        (Inr v1, Inr v2, Inr v3, Inr v4, Inr v5, Inr v6) \<Rightarrow> Inr (v1, v2, v3, v4, v5, v6)
      | _ \<Rightarrow>
          (case first_rejection order
                  [rejection_of p1, rejection_of p2, rejection_of p3,
                   rejection_of p4, rejection_of p5, rejection_of p6] of
             Some e \<Rightarrow> Inl e
           | None \<Rightarrow> Inl (TypeError ''unreachable'')))"

definition projects_request :: "string \<Rightarrow> ICachingOptions \<Rightarrow> items_request" where
  "projects_request siteUrl opts =
     \<lparr> site_url = siteUrl, list_title = PROJECTS_LIST_NAME, select = [], expand = [],
       filter_q = None, top_q = 500, orderBy = None, caching = opts \<rparr>"

definition project_status_request :: "string \<Rightarrow> ICachingOptions \<Rightarrow> items_request" where
  "project_status_request siteUrl opts =
     \<lparr> site_url = siteUrl, list_title = PROJECT_STATUS_LIST_NAME, select = [], expand = [],
       filter_q = None, top_q = 500, orderBy = Some (''Id'', False), caching = opts \<rparr>"

definition status_sections_request :: "string \<Rightarrow> ICachingOptions \<Rightarrow> items_request" where
  "status_sections_request siteUrl opts =
     \<lparr> site_url = siteUrl, list_title = STATUS_SECTIONS_LIST_NAME,
       select = [''GtSecFieldName'', ''GtSecIcon''], expand = [],
       filter_q = None, top_q = 10, orderBy = None, caching = opts \<rparr>"

type_synonym fetched =
  "(string \<rightharpoonup> string) \<times> IProjectItem list \<times> IProjectStatusItem list
     \<times> column_configurations \<times> IStatusSectionItem list \<times> ITerm list"

text \<open>
  Lines 104-132: the array is built left to right, so the search is started first and
  each \<^verbatim>\<open>getCacheOptions\<close> call runs (and may throw) before the next request is
  issued; \<^verbatim>\<open>getColumnConfigurations\<close> is \<^verbatim>\<open>async\<close> and runs up to its request at
  the call. All six promises exist before any of them is awaited.
\<close>

definition fetch_all ::
  "world \<Rightarrow> string \<Rightarrow> string \<Rightarrow> string \<Rightarrow> DataAdapter
     \<Rightarrow> (rejection + fetched) \<times> DataAdapter \<times> call list" where
  "fetch_all W siteUrl siteId phaseTermSetId a =
     (case searchSitesInHub W siteId of
        (p_sites, t_sites) \<Rightarrow>
     (case getCacheOptions (js_property W) ''projects'' a of
        (Inl e, a1) \<Rightarrow> (Inl e, a1, t_sites)
      | (Inr c1, a1) \<Rightarrow>
     (let q1 = projects_request siteUrl c1;
          p_projects = projects_get W q1;
          t1 = t_sites @ [(ItemsGet q1, rejection_of p_projects)]
      in case getCacheOptions (js_property W) ''project_status'' a1 of
        (Inl e, a2) \<Rightarrow> (Inl e, a2, t1)
      | (Inr c2, a2) \<Rightarrow>
     (let q2 = project_status_request siteUrl c2;
          p_status = status_get W q2;
          t2 = t1 @ [(ItemsGet q2, rejection_of p_status)]
      in case getColumnConfigurations W a2 of
        (p_columnConfigurations, a3, t_cc) \<Rightarrow>
     (case getCacheOptions (js_property W) ''status_sections'' a3 of
        (Inl e, a4) \<Rightarrow> (Inl e, a4, t2 @ t_cc)
      | (Inr c3, a4) \<Rightarrow>
     (let q3 = status_sections_request siteUrl c3;
          p_statusSections = sections_get W q3;
          p_phases = terms_get W phaseTermSetId;
          t3 = t2 @ t_cc @ [(ItemsGet q3, rejection_of p_statusSections),
                            (TermsGet phaseTermSetId, rejection_of p_phases)]
      in (promise_all6 (settle_order W) p_sites p_projects p_status
            p_columnConfigurations p_statusSections p_phases, a4, t3)))))))"

text \<open>Line 143: the project model of an item, built from the status models of its site.\<close>

definition built_project :: "('sm, 'pm) models \<Rightarrow> 'sm list \<Rightarrow> IProjectItem \<Rightarrow> 'pm" where
  "built_project M status item =
     newProjectModel M item (filter (\<lambda>s. status_siteId M s = GtSiteId item) status)"

text \<open>
  Lines 144-145, with the property access \<^verbatim>\<open>_sites[project.siteId]\<close> on the plain
  object of \<^verbatim>\<open>searchSitesInHub\<close>: \<open>None\<close> is the \<^verbatim>\<open>null\<close> that the filter of line
  147 removes; \<^verbatim>\<open>setTitle\<close> returns a model, which is an object and so passes that
  filter.
\<close>

definition site_gate :: "('sm, 'pm) models \<Rightarrow> (string \<rightharpoonup> string) \<Rightarrow> 'pm \<Rightarrow> 'pm option" where
  "site_gate M sites project =
     (case get_property sites (project_siteId M project) of
        None \<Rightarrow> None
      | Some v \<Rightarrow> if \<not> truthy_property v then None else Some (setTitle M project v))"

text \<open>The callback of lines 142-146.\<close>

definition project_of ::
  "('sm, 'pm) models \<Rightarrow> (string \<rightharpoonup> string) \<Rightarrow> 'sm list \<Rightarrow> IProjectItem \<Rightarrow> 'pm option" where
  "project_of M sites status item =
     (let project = built_project M status item in site_gate M sites project)"

text \<open>Lines 149-153: the predicate of the filter and the \<^verbatim>\<open>pick\<close>.\<close>

definition show_on_frontpage :: "ITerm \<Rightarrow> bool" where
  "show_on_frontpage p = (LocalCustomProperties p ''ShowOnFrontpage'' \<noteq> Some ''false'')"

definition pick_phase :: "ITerm \<Rightarrow> phase" where
  "pick_phase p =
     \<lparr> phase_Name = Name p, phase_LocalCustomProperties = LocalCustomProperties p \<rparr>"

text \<open>Lines 135-155: the result computed from the six fetched values.\<close>

definition build_result ::
  "('sm, 'pm) models \<Rightarrow> fetched \<Rightarrow> 'pm IDataAdapterFetchResult" where
  "build_result M f =
     (case f of
        (sites, projectItems, statusItems, columnConfigurations, statusSections, terms) \<Rightarrow>
          (let status = map (\<lambda>item. newProjectStatusModel M item columnConfigurations
                                      statusSections) statusItems
           in \<lparr> projects = List.map_filter (project_of M sites status) projectItems,
                phases = map pick_phase (filter show_on_frontpage terms) \<rparr>))"

text \<open>
  \<^verbatim>\<open>fetchData\<close> (lines 94-156): the outcome, the adapter afterwards and the requests
  issued. The two awaits of lines 98-99 come one after the other; a rejection ends the
  function there. The log message of line 95 is not modelled, and neither is
  \<^verbatim>\<open>getPortfolios\<close>, which \<^verbatim>\<open>fetchData\<close> does not call.
\<close>

definition fetchData ::
  "world \<Rightarrow> ('sm, 'pm) models \<Rightarrow> Portfolio \<Rightarrow> DataAdapter
     \<Rightarrow> (rejection + 'pm IDataAdapterFetchResult) \<times> DataAdapter \<times> call list" where
  "fetchData W M config a0 =
     (let a1 = a0\<lparr> current := Some config, site := Some (url config) \<rparr>;
          r0 = site_get W (url config);
          t0 = [(SiteGet (url config), rejection_of r0)]
      in case r0 of
           Inl e \<Rightarrow> (Inl e, a1, t0)
         | Inr siteId \<Rightarrow>
             (case getPhaseFieldTermSetId W a1 of
                (Inl e, a2, t1) \<Rightarrow> (Inl e, a2, t0 @ t1)
              | (Inr phaseTermSetId, a2, t1) \<Rightarrow>
                  (case fetch_all W (url config) siteId phaseTermSetId a2 of
                     (Inl e, a3, t2) \<Rightarrow> (Inl e, a3, t0 @ t1 @ t2)
                   | (Inr f, a3, t2) \<Rightarrow> (Inr (build_result M f), a3, t0 @ t1 @ t2))))"

section \<open>components/StatusColumn/index.tsx\<close>

text \<open>
  The component is a pure function from the context's \<^verbatim>\<open>properties\<close> and the
  \<^verbatim>\<open>status\<close> prop to a React element tree. The tree is modelled by one record per
  JSX element, holding the props the source passes. What the toolkit's components do
  with these props is not part of the repository.
\<close>

record section_model =
  fieldName :: string
  iconName :: string
  color :: string

text \<open>The \<^verbatim>\<open>status\<close> prop; only \<^verbatim>\<open>status.sections\<close> is read by this component.\<close>

record status_prop =
  sections :: "section_model list"

text \<open>The web part properties read through \<^verbatim>\<open>ProjectOverviewContext\<close>.\<close>

record properties =
  showTooltip :: jsval
  columnIconGap :: jsval
  columnIconSize :: jsval

datatype TooltipDelay = zero | medium | long

text \<open>\<^verbatim>\<open>styles.root\<close> of the SCSS module: an opaque class name.\<close>

datatype class_name = styles_root

record icon_root_style =
  style_color :: string
  paddingRight :: jsval
  fontSize :: jsval

record icon_element =
  icon_key :: string
  icon_iconName :: string
  icon_styles_root :: icon_root_style

record 'st tooltip_element =
  tooltip_status :: 'st

record fade_in_element =
  fade_className :: class_name
  fade_delay :: nat
  transitionDuration :: nat
  fade_children :: "icon_element list"

record 'st tooltip_host_element =
  hidden :: bool
  onRenderContent :: "unit \<Rightarrow> 'st tooltip_element"
  delay :: TooltipDelay
  closeDelay :: TooltipDelay
  calloutProps_gapSpace :: nat
  host_child :: fade_in_element

text \<open>The callback of \<^verbatim>\<open>status.sections.map\<close> (lines 23-34).\<close>

definition section_icon :: "properties \<Rightarrow> section_model \<Rightarrow> icon_element" where
  "section_icon props s =
     \<lparr> icon_key = fieldName s,
       icon_iconName = iconName s,
       icon_styles_root =
         \<lparr> style_color = color s,
           paddingRight = js_or (columnIconGap props) (Num 8),
           fontSize = columnIconSize props \<rparr> \<rparr>"

text \<open>\<^verbatim>\<open>StatusColumn\<close> (lines 11-38).\<close>

definition StatusColumn ::
  "properties \<Rightarrow> 'm status_prop_scheme \<Rightarrow> ('m status_prop_scheme) tooltip_host_element" where
  "StatusColumn props status =
     \<lparr> hidden = (\<not> truthy (showTooltip props)),
       onRenderContent = (\<lambda>_. \<lparr> tooltip_status = status \<rparr>),
       delay = long,
       closeDelay = long,
       calloutProps_gapSpace = 10,
       host_child =
         \<lparr> fade_className = styles_root,
           fade_delay = 100,
           transitionDuration = 400,
           fade_children = map (section_icon props) (sections status) \<rparr> \<rparr>"

text \<open>The icons a rendered column shows: the children of the fade-in wrapper.\<close>

definition rendered_icons :: "'st tooltip_host_element \<Rightarrow> icon_element list" where
  "rendered_icons host = fade_children (host_child host)"

section \<open>Specification vocabulary\<close>

text \<open>
  The notions the statements below are phrased in. They are not part of the code: each
  says in a closed form what a loop of the adapter is shown to compute.
\<close>

text \<open>The key under which \<^verbatim>\<open>getColumnConfigurations\<close> files an item.\<close>

definition column_key :: "IPortfolioColumnConfigurationItem \<Rightarrow> string" where
  "column_key item = GtInternalName (GtPortfolioColumn item)"

text \<open>The first non-empty string of a list, the empty string when there is none.\<close>

definition first_truthy :: "string list \<Rightarrow> string" where
  "first_truthy ts = (case filter truthy_str ts of [] \<Rightarrow> [] | t # rest \<Rightarrow> t)"

text \<open>The color of the last item that carries the value \<open>v\<close>.\<close>

definition last_color ::
  "IPortfolioColumnConfigurationItem list \<Rightarrow> string \<Rightarrow> string option" where
  "last_color items v =
     map_option GtPortfolioColumnColor (find (\<lambda>i. GtPortfolioColumnValue i = v) (rev items))"

text \<open>The items whose color line 78 stores: all but those with the value \<^verbatim>\<open>__proto__\<close>.\<close>

definition stored_items ::
  "IPortfolioColumnConfigurationItem list \<Rightarrow> IPortfolioColumnConfigurationItem list" where
  "stored_items items = filter (\<lambda>i. GtPortfolioColumnValue i \<noteq> ''__proto__'') items"

text \<open>The Title of the last search result with the site id \<open>k\<close>.\<close>

definition last_title :: "search_result list \<Rightarrow> string \<Rightarrow> string option" where
  "last_title rs k = map_option Title (find (\<lambda>r. SiteId r = k) (rev rs))"

text \<open>
  The adapter can build cache keys: \<^verbatim>\<open>usingCaching\<close> and \<^verbatim>\<open>fetchData\<close> have set
  their fields and the key template is one that \<^verbatim>\<open>format\<close> accepts.
\<close>

definition cache_ready :: "property_lookup \<Rightarrow> DataAdapter \<Rightarrow> bool" where
  "cache_ready js a =
     (case cacheOptions a of
        None \<Rightarrow> False
      | Some opts \<Rightarrow>
          (case current a of
             None \<Rightarrow> False
           | Some cur \<Rightarrow> \<not> isl (format js (key opts) [id_portfolio cur, Str []])))"

text \<open>Two adapter states agree on what \<^verbatim>\<open>usingCaching\<close> and \<^verbatim>\<open>fetchData\<close> set.\<close>

definition same_setup :: "DataAdapter \<Rightarrow> DataAdapter \<Rightarrow> bool" where
  "same_setup a a' =
     (cacheOptions a' = cacheOptions a \<and> current a' = current a \<and> site a' = site a)"

section \<open>Example inputs\<close>

text \<open>
  A hub with three project items, of which the first belongs to a site of the hub, the
  second to a site whose search result has an empty title and the third to no site of
  the hub; status models are the status items themselves, and a project model is its
  item, its status models and what its title was set to.
\<close>

definition no_property :: property_lookup where
  "no_property v path = Str []"

definition ex_status_siteId :: "IProjectStatusItem \<Rightarrow> string" where
  "ex_status_siteId s =
     (case map_of (status_fields s) ''GtSiteId'' of Some (Str x) \<Rightarrow> x | _ \<Rightarrow> [])"

definition ex_models ::
  "(IProjectStatusItem, IProjectItem \<times> IProjectStatusItem list \<times> property_value) models" where
  "ex_models =
     \<lparr> newProjectStatusModel = (\<lambda>item cc secs. item),
       status_siteId = ex_status_siteId,
       newProjectModel = (\<lambda>item status. (item, status, OwnString [])),
       project_siteId = (\<lambda>p. GtSiteId (fst p)),
       setTitle = (\<lambda>p t. (fst p, fst (snd p), t)) \<rparr>"

definition ex_status_items :: "IProjectStatusItem list" where
  "ex_status_items =
     [\<lparr> status_fields = [(''Id'', Num 9), (''GtSiteId'', Str ''s3'')] \<rparr>,
      \<lparr> status_fields = [(''Id'', Num 7), (''GtSiteId'', Str ''s1'')] \<rparr>,
      \<lparr> status_fields = [(''Id'', Num 4), (''GtSiteId'', Str ''s1'')] \<rparr>]"

definition ex_project_items :: "IProjectItem list" where
  "ex_project_items =
     [\<lparr> GtSiteId = ''s1'', project_fields = [] \<rparr>,
      \<lparr> GtSiteId = ''s2'', project_fields = [] \<rparr>,
      \<lparr> GtSiteId = ''s3'', project_fields = [] \<rparr>]"

definition ex_search_results :: "search_result list" where
  "ex_search_results =
     [\<lparr> SiteId = ''s1'', Title = ''Old name'' \<rparr>,
      \<lparr> SiteId = ''s2'', Title = [] \<rparr>,
      \<lparr> SiteId = ''s1'', Title = ''Alpha'' \<rparr>]"

definition ex_terms :: "ITerm list" where
  "ex_terms =
     [\<lparr> Name = ''Plan'', LocalCustomProperties = [''ShowOnFrontpage'' \<mapsto> ''false''],
        term_fields = [(''Id'', Str ''t1'')] \<rparr>,
      \<lparr> Name = ''Build'', LocalCustomProperties = Map.empty,
        term_fields = [(''Id'', Str ''t2'')] \<rparr>]"

definition ex_column_items :: "IPortfolioColumnConfigurationItem list" where
  "ex_column_items =
     [\<lparr> GtPortfolioColumnColor = ''red'', GtPortfolioColumnValue = ''High'',
        GtPortfolioColumn = \<lparr> column_Title = [], GtInternalName = ''GtStatusRisk'' \<rparr> \<rparr>,
      \<lparr> GtPortfolioColumnColor = ''green'', GtPortfolioColumnValue = ''Low'',
        GtPortfolioColumn = \<lparr> column_Title = ''Risk'', GtInternalName = ''GtStatusRisk'' \<rparr> \<rparr>,
      \<lparr> GtPortfolioColumnColor = ''orange'', GtPortfolioColumnValue = ''High'',
        GtPortfolioColumn = \<lparr> column_Title = ''Risiko'', GtInternalName = ''GtStatusRisk'' \<rparr> \<rparr>,
      \<lparr> GtPortfolioColumnColor = ''blue'', GtPortfolioColumnValue = ''Late'',
        GtPortfolioColumn = \<lparr> column_Title = ''Time'', GtInternalName = ''GtStatusTime'' \<rparr> \<rparr>,
      \<lparr> GtPortfolioColumnColor = ''grey'', GtPortfolioColumnValue = ''__proto__'',
        GtPortfolioColumn = \<lparr> column_Title = ''Tid'', GtInternalName = ''GtStatusTime'' \<rparr> \<rparr>]"

definition ex_world :: world where
  "ex_world =
     \<lparr> site_get = (\<lambda>u. Inr ''hub''),
       field_get = (\<lambda>q. Inr ''phases''),
       search = (\<lambda>q. Inr ex_search_results),
       projects_get = (\<lambda>q. Inr ex_project_items),
       status_get = (\<lambda>q. Inr ex_status_items),
       column_configurations_get = (\<lambda>q. Inr ex_column_items),
       sections_get = (\<lambda>q. Inr []),
       terms_get = (\<lambda>t. Inr ex_terms),
       settle_order = [5, 1, 0],
       js_property = no_property \<rparr>"

text \<open>The same hub when the projects list and the term store are down.\<close>

definition ex_world_down :: world where
  "ex_world_down =
     ex_world\<lparr> projects_get := (\<lambda>q. Inl (RequestFailed ''projects'')),
               terms_get := (\<lambda>t. Inl (RequestFailed ''terms'')) \<rparr>"

definition ex_config :: Portfolio where
  "ex_config = \<lparr> id_portfolio = Num 3, url = ''https://hub'' \<rparr>"

definition ex_adapter :: DataAdapter where
  "ex_adapter = usingCaching 60 ''po'' new_DataAdapter"

text \<open>The adapter while \<^verbatim>\<open>fetchData\<close> runs: \<^verbatim>\<open>current\<close> and \<^verbatim>\<open>site\<close> are set.\<close>

definition ex_adapter_fetching :: DataAdapter where
  "ex_adapter_fetching = ex_adapter\<lparr> current := Some ex_config, site := Some (url ex_config) \<rparr>"

text \<open>What the run on the example hub returns.\<close>

definition ex_result ::
  "(IProjectItem \<times> IProjectStatusItem list \<times> property_value) IDataAdapterFetchResult" where
  "ex_result =
     \<lparr> projects =
         [(\<lparr> GtSiteId = ''s1'', project_fields = [] \<rparr>,
           [\<lparr> status_fields = [(''Id'', Num 7), (''GtSiteId'', Str ''s1'')] \<rparr>,
            \<lparr> status_fields = [(''Id'', Num 4), (''GtSiteId'', Str ''s1'')] \<rparr>],
           OwnString ''Alpha'')],
       phases = [\<lparr> phase_Name = ''Build'', phase_LocalCustomProperties = Map.empty \<rparr>] \<rparr>"

text \<open>
  The same hub with one more project item, whose \<^verbatim>\<open>GtSiteId\<close> is the text
  \<^verbatim>\<open>toString\<close>, and what the run on it returns.
\<close>

definition ex_world_inherited :: world where
  "ex_world_inherited =
     ex_world\<lparr> projects_get :=
       (\<lambda>q. Inr (ex_project_items @ [\<lparr> GtSiteId = ''toString'', project_fields = [] \<rparr>])) \<rparr>"

definition ex_result_inherited ::
  "(IProjectItem \<times> IProjectStatusItem list \<times> property_value) IDataAdapterFetchResult" where
  "ex_result_inherited =
     ex_result\<lparr> projects := projects ex_result
       @ [(\<lparr> GtSiteId = ''toString'', project_fields = [] \<rparr>, [],
           PrototypeMember ''toString'')] \<rparr>"

text \<open>An adapter whose alias is itself a placeholder of the key template.\<close>

definition ex_adapter_braces :: DataAdapter where
  "ex_adapter_braces = (usingCaching 60 ''{0}'' new_DataAdapter)\<lparr> current := Some ex_config \<rparr>"

text \<open>
  The name a column has in the outcome of \<^verbatim>\<open>getColumnConfigurations\<close>, and the
  color it has for a value.
\<close>

definition configured_name :: "rejection + column_configurations \<Rightarrow> string \<Rightarrow> string option" where
  "configured_name r k =
     (case r of
        Inl e \<Rightarrow> None
      | Inr cc \<Rightarrow> (case cc k of None \<Rightarrow> None | Some entry \<Rightarrow> name entry))"

definition configured_color ::
  "rejection + column_configurations \<Rightarrow> string \<Rightarrow> string \<Rightarrow> string option" where
  "configured_color r k v =
     (case r of
        Inl e \<Rightarrow> None
      | Inr cc \<Rightarrow>
          (case cc k of
             None \<Rightarrow> None
           | Some entry \<Rightarrow> (case colors entry of None \<Rightarrow> None | Some c \<Rightarrow> c v)))"

section \<open>Termination of the template scan\<close>

text \<open>A matched field is shorter than the text it was matched in: the scan terminates.\<close>

lemma find_close_shorter:
  "find_close xf cs = Some (t, rest) \<Longrightarrow> length rest < length cs"
  by (induction cs arbitrary: xf) (fastforce split: if_splits)+

lemma match_transformer_shorter:
  "match_transformer cs = Some (t, rest) \<Longrightarrow> length rest < length cs"
  by (cases cs) (auto split: if_splits dest: find_close_shorter)

lemma match_field_shorter:
  "match_field k cs = Some (k', xf, rest) \<Longrightarrow> length rest < length cs"
proof (induction cs arbitrary: k)
  case Nil
  then show ?case by simp
next
  case (Cons c cs)
  then show ?case
    by (fastforce split: if_splits option.splits dest: match_transformer_shorter)
qed

termination format_from
  by (relation "measure (\<lambda>(js, args, state, idx, s). length s)")
    (auto dest: match_field_shorter)

section \<open>Evaluation rules for the examples\<close>

lemmas format_eval = format_def field_value_def resolve_def lookup_def array_index_def
  all_digits_def digit_value_def line_terminator_def string_of_int_def string_of_nat.simps
  digit_char_def

lemmas adapter_eval = fetchData_def fetch_all_def getPhaseFieldTermSetId_def
  getColumnConfigurations_def searchSitesInHub_def getCacheOptions_def usingCaching_def
  new_DataAdapter_def promise_all6_def first_rejection_def build_result_def project_of_def
  site_gate_def built_project_def show_on_frontpage_def pick_phase_def sites_step_def
  truthy_str_def List.map_filter_def Let_def get_property_def object_prototype_names_def
  assign_property_def

lemmas ex_eval = ex_world_def ex_world_down_def ex_models_def ex_config_def ex_adapter_def
  ex_status_items_def ex_project_items_def ex_search_results_def ex_terms_def
  ex_column_items_def ex_status_siteId_def no_property_def ex_adapter_fetching_def
  ex_adapter_braces_def ex_result_def ex_world_inherited_def ex_result_inherited_def

section \<open>Cache keys\<close>

text \<open>Text without braces is copied by \<open>format_from\<close>.\<close>

lemma format_from_plain:
  "CHR ''{'' \<notin> set s \<Longrightarrow> CHR ''}'' \<notin> set s \<Longrightarrow>
   format_from js args st idx (s @ t) = map_sum id ((@) s) (format_from js args st idx t)"
proof (induction s)
  case Nil
  show ?case by (simp add: sum.map_ident)
next
  case (Cons c s)
  then have "c \<noteq> CHR ''{''" "c \<noteq> CHR ''}''" by auto
  with Cons show ?case by (simp add: sum.map_comp comp_def)
qed

lemma format_from_suffix:
  "format_from js [v, Str k] UNDEFINED 0 ''_{0}_{1}'' = Inr (''_'' @ to_string v @ ''_'' @ k)"
  by (simp add: field_value_def resolve_def lookup_def array_index_def all_digits_def
      digit_value_def line_terminator_def)

lemma format_cache_key:
  assumes "CHR ''{'' \<notin> set alias" "CHR ''}'' \<notin> set alias"
  shows "format js (alias @ ''_{0}_{1}'') [v, Str k]
           = Inr (alias @ ''_'' @ to_string v @ ''_'' @ k)"
proof -
  have "format js (alias @ ''_{0}_{1}'') [v, Str k]
      = map_sum id ((@) alias) (format_from js [v, Str k] UNDEFINED 0 ''_{0}_{1}'')"
    unfolding format_def using assms by (rule format_from_plain)
  also have "\<dots> = map_sum id ((@) alias) (Inr (''_'' @ to_string v @ ''_'' @ k))"
    by (simp only: format_from_suffix)
  finally show ?thesis by simp
qed

text \<open>
  Whether \<open>format\<close> throws depends on the template alone: the numbering state after a
  field and the unknown transformer do not depend on the arguments.
\<close>

lemma field_value_isl:
  "isl (field_value js args st idx k xf) = isl (field_value js' args' st idx' k xf)"
  by (auto simp: field_value_def resolve_def Let_def split: option.splits)

lemma field_value_state:
  "field_value js args st idx k xf = Inr (v, st1, i1) \<Longrightarrow>
   field_value js' args' st idx' k xf = Inr (v', st2, i2) \<Longrightarrow> st1 = st2"
  by (auto simp: field_value_def resolve_def Let_def split: option.splits if_splits)

lemma isl_map_sum: "isl (map_sum f g x) = isl x"
  by (cases x) auto

lemma format_from_isl:
  "isl (format_from js args st idx s) = isl (format_from js' args' st idx' s)"
proof (induction js args st idx s arbitrary: idx' rule: format_from.induct)
  case (1 js args state idx)
  show ?case by simp
next
  case (2 js args state idx c cs)
  show ?case
  proof (cases "(c = CHR ''{'' \<or> c = CHR ''}'') \<and> cs \<noteq> [] \<and> hd cs = c")
    case True
    with "2.IH"(1) [of idx'] show ?thesis by (simp add: isl_map_sum)
  next
    case esc: False
    show ?thesis
    proof (cases "c = CHR ''{''")
      case False
      with esc "2.IH"(4) [of idx'] show ?thesis by (auto simp: isl_map_sum)
    next
      case brace: True
      show ?thesis
      proof (cases "match_field [] cs")
        case None
        with esc brace "2.IH"(2) [of idx'] show ?thesis by (auto simp: isl_map_sum)
      next
        case (Some m)
        obtain k xf rest where m: "m = (k, xf, rest)" by (cases m) auto
        show ?thesis
        proof (cases "field_value js args state idx k xf")
          case (Inl e)
          with field_value_isl [of js args state idx k xf js' args' idx']
          obtain e' where "field_value js' args' state idx' k xf = Inl e'"
            by (cases "field_value js' args' state idx' k xf") auto
          with Inl esc brace Some m show ?thesis by auto
        next
          case (Inr t)
          obtain v st1 i1 where t: "t = (v, st1, i1)" by (cases t) auto
          from Inr field_value_isl [of js args state idx k xf js' args' idx']
          obtain t' where r': "field_value js' args' state idx' k xf = Inr t'"
            by (cases "field_value js' args' state idx' k xf") auto
          obtain v' st2 i2 where t': "t' = (v', st2, i2)" by (cases t') auto
          from Inr t r' t' have st: "st2 = st1"
            using field_value_state by metis
          from "2.IH"(3) [OF esc brace Some m [THEN sym] refl Inr t [THEN sym] refl, of i2]
          have "isl (format_from js args st1 i1 rest) = isl (format_from js' args' st1 i2 rest)" .
          with esc brace Some m Inr t r' t' st show ?thesis by (auto simp: isl_map_sum)
        qed
      qed
    qed
  qed
qed

lemma format_isl: "isl (format js t args) = isl (format js' t args')"
  unfolding format_def by (rule format_from_isl)

lemma getCacheOptions_ready:
  "cache_ready js a \<longleftrightarrow> \<not> isl (fst (getCacheOptions js k a))"
proof (cases "cacheOptions a")
  case None
  then show ?thesis by (simp add: cache_ready_def getCacheOptions_def)
next
  case (Some opts)
  show ?thesis
  proof (cases "current a")
    case None
    with Some show ?thesis by (simp add: cache_ready_def getCacheOptions_def)
  next
    case cur: (Some cur)
    have "isl (format js (key opts) [id_portfolio cur, Str []])
        = isl (format js (key opts) [id_portfolio cur, Str k])"
      by (rule format_isl)
    with Some cur show ?thesis
      by (cases "format js (key opts) [id_portfolio cur, Str k]")
        (simp_all add: cache_ready_def getCacheOptions_def)
  qed
qed

lemma getCacheOptions_state:
  "getCacheOptions js k a = (r, a') \<Longrightarrow>
   cacheOptions a' = cacheOptions a \<and> current a' = current a \<and> site a' = site a"
  by (auto simp: getCacheOptions_def split: option.splits sum.splits)

lemma cache_ready_cong:
  "cacheOptions a' = cacheOptions a \<Longrightarrow> current a' = current a \<Longrightarrow>
   cache_ready js a' = cache_ready js a"
  by (simp add: cache_ready_def split: option.splits)

lemma getCacheOptions_readyE:
  assumes "cache_ready js a"
  obtains c a' where "getCacheOptions js k a = (Inr c, a')"
    and "cache_ready js a'" and "site a' = site a"
proof -
  obtain r a' where g: "getCacheOptions js k a = (r, a')" by (cases "getCacheOptions js k a")
  with assms getCacheOptions_ready [of js a k] obtain c where "r = Inr c"
    by (cases r) auto
  moreover from g
  have "cacheOptions a' = cacheOptions a \<and> current a' = current a \<and> site a' = site a"
    by (rule getCacheOptions_state)
  ultimately show ?thesis using g assms that cache_ready_cong [of a' a js] by auto
qed

lemma getCacheOptions_not_ready:
  assumes "\<not> cache_ready js a"
  obtains e where "getCacheOptions js k a = (Inl e, a)"
proof -
  obtain r a' where g: "getCacheOptions js k a = (r, a')" by (cases "getCacheOptions js k a")
  with assms getCacheOptions_ready [of js a k] obtain e where r: "r = Inl e"
    by (cases r) auto
  with g have "a' = a"
    by (auto simp: getCacheOptions_def split: option.splits sum.splits)
  with g r that show ?thesis by simp
qed

section \<open>The adapter's fields during a run\<close>

text \<open>
  Only \<^verbatim>\<open>cacheKeys\<close> changes after \<^verbatim>\<open>fetchData\<close> has set \<^verbatim>\<open>current\<close> and
  \<^verbatim>\<open>site\<close>: every \<^verbatim>\<open>getCacheOptions\<close> call of a run, and every later one, sees the
  portfolio of the run and the options of \<^verbatim>\<open>usingCaching\<close>.
\<close>

lemma same_setup_refl: "same_setup a a"
  by (simp add: same_setup_def)

lemma same_setup_trans: "same_setup a b \<Longrightarrow> same_setup b c \<Longrightarrow> same_setup a c"
  by (simp add: same_setup_def)

lemma getCacheOptions_same: "getCacheOptions js k a = (r, a') \<Longrightarrow> same_setup a a'"
  unfolding same_setup_def by (rule getCacheOptions_state)

lemma getPhaseFieldTermSetId_same:
  assumes "getPhaseFieldTermSetId W a = (r, a', t)"
  shows "same_setup a a'"
proof -
  obtain r0 a0 where g: "getCacheOptions (js_property W) ''phase_term_set_id'' a = (r0, a0)"
    by (cases "getCacheOptions (js_property W) ''phase_term_set_id'' a")
  with assms have "a' = a0"
    by (cases r0) (simp_all add: getPhaseFieldTermSetId_def Let_def)
  with g show ?thesis by (simp add: getCacheOptions_same)
qed

lemma getColumnConfigurations_same:
  assumes "getColumnConfigurations W a = (r, a', t)"
  shows "same_setup a a'"
proof (cases "site a")
  case None
  with assms show ?thesis by (simp add: getColumnConfigurations_def same_setup_refl)
next
  case (Some u)
  obtain r0 a0 where g: "getCacheOptions (js_property W) ''column_configuration'' a = (r0, a0)"
    by (cases "getCacheOptions (js_property W) ''column_configuration'' a")
  with assms Some have "a' = a0"
    by (cases r0) (simp_all add: getColumnConfigurations_def Let_def)
  with g show ?thesis by (simp add: getCacheOptions_same)
qed

lemma fetch_all_same:
  assumes "fetch_all W u sid tsid a = (r, a', t)"
  shows "same_setup a a'"
proof -
  obtain r1 a1 where g1: "getCacheOptions (js_property W) ''projects'' a = (r1, a1)"
    by (cases "getCacheOptions (js_property W) ''projects'' a")
  obtain r2 a2 where g2: "getCacheOptions (js_property W) ''project_status'' a1 = (r2, a2)"
    by (cases "getCacheOptions (js_property W) ''project_status'' a1")
  obtain r3 a3 t3 where g3: "getColumnConfigurations W a2 = (r3, a3, t3)"
    by (cases "getColumnConfigurations W a2")
  obtain r4 a4 where g4: "getCacheOptions (js_property W) ''status_sections'' a3 = (r4, a4)"
    by (cases "getCacheOptions (js_property W) ''status_sections'' a3")
  note s1 = getCacheOptions_same [OF g1]
  note s2 = same_setup_trans [OF s1 getCacheOptions_same [OF g2]]
  note s3 = same_setup_trans [OF s2 getColumnConfigurations_same [OF g3]]
  note s4 = same_setup_trans [OF s3 getCacheOptions_same [OF g4]]
  from assms g1 g2 g3 g4 have "a' = a1 \<or> a' = a2 \<or> a' = a4"
    by (cases r1; cases r2; cases r4)
      (simp_all add: fetch_all_def Let_def split: prod.splits)
  with s1 s2 s4 show ?thesis by blast
qed

lemma fetchData_keeps_setup:
  assumes "fetchData W M config a = (r, a', t)"
  shows "current a' = Some config \<and> site a' = Some (url config)
    \<and> cacheOptions a' = cacheOptions a"
proof -
  let ?a1 = "a\<lparr> current := Some config, site := Some (url config) \<rparr>"
  have "same_setup ?a1 a'"
  proof (cases "site_get W (url config)")
    case (Inl e)
    with assms show ?thesis by (simp add: fetchData_def Let_def same_setup_refl)
  next
    case (Inr sid)
    obtain r1 a1 t1 where g1: "getPhaseFieldTermSetId W ?a1 = (r1, a1, t1)"
      by (cases "getPhaseFieldTermSetId W ?a1")
    note s1 = getPhaseFieldTermSetId_same [OF g1]
    show ?thesis
    proof (cases r1)
      case (Inl e)
      with assms Inr g1 have "a' = a1" by (simp add: fetchData_def Let_def)
      with s1 show ?thesis by simp
    next
      case tsid: (Inr tsid)
      obtain r2 a2 t2 where g2: "fetch_all W (url config) sid tsid a1 = (r2, a2, t2)"
        by (cases "fetch_all W (url config) sid tsid a1")
      with assms Inr g1 tsid have "a' = a2"
        by (cases r2) (simp_all add: fetchData_def Let_def)
      with same_setup_trans [OF s1 fetch_all_same [OF g2]] show ?thesis by simp
    qed
  qed
  then show ?thesis by (simp add: same_setup_def)
qed

section \<open>The requests of a run\<close>

lemma getPhaseFieldTermSetId_ready:
  assumes "cache_ready (js_property W) a"
  obtains c a' where
    "getPhaseFieldTermSetId W a =
       (field_get W (phase_field_request c), a',
        [(FieldGet (phase_field_request c), rejection_of (field_get W (phase_field_request c)))])"
    and "cache_ready (js_property W) a'" and "site a' = site a"
proof -
  from assms obtain c a' where
    g: "getCacheOptions (js_property W) ''phase_term_set_id'' a = (Inr c, a')"
    and r: "cache_ready (js_property W) a'" and s: "site a' = site a"
    by (rule getCacheOptions_readyE)
  from g have "getPhaseFieldTermSetId W a =
       (field_get W (phase_field_request c), a',
        [(FieldGet (phase_field_request c), rejection_of (field_get W (phase_field_request c)))])"
    by (simp add: getPhaseFieldTermSetId_def Let_def)
  with r s that show ?thesis by blast
qed

lemma getColumnConfigurations_ready:
  assumes "cache_ready (js_property W) a" and "site a = Some u"
  obtains c a' where
    "getCacheOptions (js_property W) ''column_configuration'' a = (Inr c, a')"
    and "getColumnConfigurations W a =
       (case column_configurations_get W (column_configuration_request u c) of
          Inl e \<Rightarrow> Inl e
        | Inr items \<Rightarrow> Inr (foldl column_configuration_step Map.empty items),
        a',
        [(ItemsGet (column_configuration_request u c),
          rejection_of (column_configurations_get W (column_configuration_request u c)))])"
    and "cache_ready (js_property W) a'" and "site a' = site a"
proof -
  from assms(1) obtain c a' where
    g: "getCacheOptions (js_property W) ''column_configuration'' a = (Inr c, a')"
    and r: "cache_ready (js_property W) a'" and s: "site a' = site a"
    by (rule getCacheOptions_readyE)
  from g assms(2) have "getColumnConfigurations W a =
       (case column_configurations_get W (column_configuration_request u c) of
          Inl e \<Rightarrow> Inl e
        | Inr items \<Rightarrow> Inr (foldl column_configuration_step Map.empty items),
        a',
        [(ItemsGet (column_configuration_request u c),
          rejection_of (column_configurations_get W (column_configuration_request u c)))])"
    by (simp add: getColumnConfigurations_def Let_def)
  with g r s that show ?thesis by blast
qed

lemma rejection_of_case:
  "rejection_of (case r of Inl e \<Rightarrow> Inl e | Inr v \<Rightarrow> Inr (f v)) = rejection_of r"
  by (cases r) simp_all

lemma fetch_all_ready:
  assumes "cache_ready (js_property W) a" and "site a = Some u"
  obtains c1 c2 c3 c4 a' p1 p2 p3 p4 p5 p6 where
    "p1 = (case search W (hub_query sid) of
             Inl e \<Rightarrow> Inl e
           | Inr rs \<Rightarrow> Inr (foldl sites_step Map.empty rs))"
    and "p2 = projects_get W (projects_request u c1)"
    and "p3 = status_get W (project_status_request u c2)"
    and "p4 = (case column_configurations_get W (column_configuration_request u c4) of
                 Inl e \<Rightarrow> Inl e
               | Inr items \<Rightarrow> Inr (foldl column_configuration_step Map.empty items))"
    and "p5 = sections_get W (status_sections_request u c3)"
    and "p6 = terms_get W tsid"
    and "fetch_all W u sid tsid a =
           (promise_all6 (settle_order W) p1 p2 p3 p4 p5 p6, a',
            [(Search (hub_query sid), rejection_of p1),
             (ItemsGet (projects_request u c1), rejection_of p2),
             (ItemsGet (project_status_request u c2), rejection_of p3),
             (ItemsGet (column_configuration_request u c4), rejection_of p4),
             (ItemsGet (status_sections_request u c3), rejection_of p5),
             (TermsGet tsid, rejection_of p6)])"
proof -
  from assms(1) obtain c1 a1 where
    g1: "getCacheOptions (js_property W) ''projects'' a = (Inr c1, a1)"
    and r1: "cache_ready (js_property W) a1" and s1: "site a1 = site a"
    by (rule getCacheOptions_readyE)
  from r1 obtain c2 a2 where
    g2: "getCacheOptions (js_property W) ''project_status'' a1 = (Inr c2, a2)"
    and r2: "cache_ready (js_property W) a2" and s2: "site a2 = site a1"
    by (rule getCacheOptions_readyE)
  from s1 s2 assms(2) have "site a2 = Some u" by simp
  with r2 obtain c4 a3 where g4: "getColumnConfigurations W a2 =
       (case column_configurations_get W (column_configuration_request u c4) of
          Inl e \<Rightarrow> Inl e
        | Inr items \<Rightarrow> Inr (foldl column_configuration_step Map.empty items),
        a3,
        [(ItemsGet (column_configuration_request u c4),
          rejection_of (column_configurations_get W (column_configuration_request u c4)))])"
    and r3: "cache_ready (js_property W) a3"
    by (rule getColumnConfigurations_ready)
  from r3 obtain c3 a4 where
    g3: "getCacheOptions (js_property W) ''status_sections'' a3 = (Inr c3, a4)"
    by (rule getCacheOptions_readyE)
  define p1 where "p1 = (case search W (hub_query sid) of
             Inl e \<Rightarrow> Inl e
           | Inr rs \<Rightarrow> Inr (foldl sites_step Map.empty rs))"
  define p4 where "p4 = (case column_configurations_get W (column_configuration_request u c4) of
                 Inl e \<Rightarrow> Inl e
               | Inr items \<Rightarrow> Inr (foldl column_configuration_step Map.empty items))"
  have "fetch_all W u sid tsid a =
           (promise_all6 (settle_order W) p1
              (projects_get W (projects_request u c1))
              (status_get W (project_status_request u c2))
              p4
              (sections_get W (status_sections_request u c3))
              (terms_get W tsid), a4,
            [(Search (hub_query sid), rejection_of p1),
             (ItemsGet (projects_request u c1),
              rejection_of (projects_get W (projects_request u c1))),
             (ItemsGet (project_status_request u c2),
              rejection_of (status_get W (project_status_request u c2))),
             (ItemsGet (column_configuration_request u c4), rejection_of p4),
             (ItemsGet (status_sections_request u c3),
              rejection_of (sections_get W (status_sections_request u c3))),
             (TermsGet tsid, rejection_of (terms_get W tsid))])"
    unfolding fetch_all_def searchSitesInHub_def Let_def p1_def p4_def
    by (simp add: g1 g2 g3 g4 rejection_of_case)
  with p1_def p4_def show ?thesis using that by blast
qed

text \<open>
  The four ways a run can go: the site request fails; no cache key can be built; the
  phase field request fails; or all six concurrent requests are issued and the outcome
  is that of \<open>promise_all6\<close>.
\<close>

lemma fetchData_cases [case_names site_failed cache_failed field_failed requested]:
  obtains
    e where "site_get W (url config) = Inl e"
      and "fetchData W M config a =
             (Inl e, a\<lparr> current := Some config, site := Some (url config) \<rparr>,
              [(SiteGet (url config), Some e)])"
  | sid e where "site_get W (url config) = Inr sid"
      and "fetchData W M config a =
             (Inl e, a\<lparr> current := Some config, site := Some (url config) \<rparr>,
              [(SiteGet (url config), None)])"
  | sid c0 e a2 where "site_get W (url config) = Inr sid"
      and "field_get W (phase_field_request c0) = Inl e"
      and "fetchData W M config a =
             (Inl e, a2,
              [(SiteGet (url config), None), (FieldGet (phase_field_request c0), Some e)])"
  | sid c0 tsid c1 c2 c3 c4 a3 p1 p2 p3 p4 p5 p6 where
      "site_get W (url config) = Inr sid"
      and "field_get W (phase_field_request c0) = Inr tsid"
      and "p1 = (case search W (hub_query sid) of
                   Inl e \<Rightarrow> Inl e
                 | Inr rs \<Rightarrow> Inr (foldl sites_step Map.empty rs))"
      and "p2 = projects_get W (projects_request (url config) c1)"
      and "p3 = status_get W (project_status_request (url config) c2)"
      and "p4 = (case column_configurations_get W
                        (column_configuration_request (url config) c4) of
                   Inl e \<Rightarrow> Inl e
                 | Inr items \<Rightarrow> Inr (foldl column_configuration_step Map.empty items))"
      and "p5 = sections_get W (status_sections_request (url config) c3)"
      and "p6 = terms_get W tsid"
      and "fetchData W M config a =
             (case promise_all6 (settle_order W) p1 p2 p3 p4 p5 p6 of
                Inl e \<Rightarrow> Inl e
              | Inr f \<Rightarrow> Inr (build_result M f),
              a3,
              [(SiteGet (url config), None),
               (FieldGet (phase_field_request c0), None),
               (Search (hub_query sid), rejection_of p1),
               (ItemsGet (projects_request (url config) c1), rejection_of p2),
               (ItemsGet (project_status_request (url config) c2), rejection_of p3),
               (ItemsGet (column_configuration_request (url config) c4), rejection_of p4),
               (ItemsGet (status_sections_request (url config) c3), rejection_of p5),
               (TermsGet tsid, rejection_of p6)])"
proof (cases "site_get W (url config)")
  case (Inl e)
  then have "fetchData W M config a =
             (Inl e, a\<lparr> current := Some config, site := Some (url config) \<rparr>,
              [(SiteGet (url config), Some e)])"
    by (simp add: fetchData_def Let_def)
  with Inl that(1) show ?thesis by blast
next
  case (Inr sid)
  let ?a1 = "a\<lparr> current := Some config, site := Some (url config) \<rparr>"
  show ?thesis
  proof (cases "cache_ready (js_property W) ?a1")
    case False
    then obtain e where
      "getCacheOptions (js_property W) ''phase_term_set_id'' ?a1 = (Inl e, ?a1)"
      by (rule getCacheOptions_not_ready)
    with Inr have "fetchData W M config a = (Inl e, ?a1, [(SiteGet (url config), None)])"
      by (simp add: fetchData_def getPhaseFieldTermSetId_def Let_def)
    with Inr that(2) show ?thesis by blast
  next
    case True
    then obtain c0 a2 where ph: "getPhaseFieldTermSetId W ?a1 =
       (field_get W (phase_field_request c0), a2,
        [(FieldGet (phase_field_request c0), rejection_of (field_get W (phase_field_request c0)))])"
      and r2: "cache_ready (js_property W) a2" and s2: "site a2 = site ?a1"
      by (rule getPhaseFieldTermSetId_ready)
    show ?thesis
    proof (cases "field_get W (phase_field_request c0)")
      case (Inl e)
      with Inr ph have "fetchData W M config a =
             (Inl e, a2,
              [(SiteGet (url config), None), (FieldGet (phase_field_request c0), Some e)])"
        by (simp add: fetchData_def Let_def)
      with Inr Inl that(3) show ?thesis by blast
    next
      case tsid: (Inr tsid)
      from s2 have "site a2 = Some (url config)" by simp
      with r2 obtain c1 c2 c3 c4 a3 p1 p2 p3 p4 p5 p6 where
        p: "p1 = (case search W (hub_query sid) of
                   Inl e \<Rightarrow> Inl e
                 | Inr rs \<Rightarrow> Inr (foldl sites_step Map.empty rs))"
          "p2 = projects_get W (projects_request (url config) c1)"
          "p3 = status_get W (project_status_request (url config) c2)"
          "p4 = (case column_configurations_get W
                        (column_configuration_request (url config) c4) of
                   Inl e \<Rightarrow> Inl e
                 | Inr items \<Rightarrow> Inr (foldl column_configuration_step Map.empty items))"
          "p5 = sections_get W (status_sections_request (url config) c3)"
          "p6 = terms_get W tsid"
        and fa: "fetch_all W (url config) sid tsid a2 =
           (promise_all6 (settle_order W) p1 p2 p3 p4 p5 p6, a3,
            [(Search (hub_query sid), rejection_of p1),
             (ItemsGet (projects_request (url config) c1), rejection_of p2),
             (ItemsGet (project_status_request (url config) c2), rejection_of p3),
             (ItemsGet (column_configuration_request (url config) c4), rejection_of p4),
             (ItemsGet (status_sections_request (url config) c3), rejection_of p5),
             (TermsGet tsid, rejection_of p6)])"
        by (rule fetch_all_ready)
      from Inr ph tsid fa have "fetchData W M config a =
             (case promise_all6 (settle_order W) p1 p2 p3 p4 p5 p6 of
                Inl e \<Rightarrow> Inl e
              | Inr f \<Rightarrow> Inr (build_result M f),
              a3,
              [(SiteGet (url config), None),
               (FieldGet (phase_field_request c0), None),
               (Search (hub_query sid), rejection_of p1),
               (ItemsGet (projects_request (url config) c1), rejection_of p2),
               (ItemsGet (project_status_request (url config) c2), rejection_of p3),
               (ItemsGet (column_configuration_request (url config) c4), rejection_of p4),
               (ItemsGet (status_sections_request (url config) c3), rejection_of p5),
               (TermsGet tsid, rejection_of p6)])"
        by (cases "promise_all6 (settle_order W) p1 p2 p3 p4 p5 p6")
          (simp_all add: fetchData_def Let_def)
      with Inr tsid p that(4) show ?thesis by blast
    qed
  qed
qed

section \<open>Promise.all\<close>

lemma snd_in_set: "x \<in> set (map snd t) \<Longrightarrow> \<exists>q. (q, x) \<in> set t"
  by (induction t) auto

lemma map_filter_Cons_in:
  assumes "List.map_filter f xs = e # es"
  shows "\<exists>x \<in> set xs. f x = Some e"
proof -
  have "e \<in> set (List.map_filter f xs)" by (simp add: assms)
  then show ?thesis by (auto simp: List.map_filter_def)
qed

lemma first_rejection_Some:
  assumes "first_rejection ord outs = Some e"
  shows "Some e \<in> set outs"
proof -
  from assms obtain es where
    "List.map_filter (\<lambda>i. if i < length outs then outs ! i else None)
      (ord @ [0..<length outs]) = e # es"
    by (auto simp: first_rejection_def split: list.splits)
  then obtain i where "(if i < length outs then outs ! i else None) = Some e"
    by (blast dest: map_filter_Cons_in)
  then have "i < length outs" and "outs ! i = Some e"
    by (auto split: if_splits)
  then show ?thesis using nth_mem [of i outs] by simp
qed

lemma first_rejection_None:
  assumes "first_rejection ord outs = None"
  shows "Some e \<notin> set outs"
proof
  assume "Some e \<in> set outs"
  then obtain i where i: "i < length outs" "outs ! i = Some e"
    by (auto simp: in_set_conv_nth)
  then have "e \<in> set (List.map_filter (\<lambda>i. if i < length outs then outs ! i else None)
             (ord @ [0..<length outs]))"
    by (auto simp: List.map_filter_def intro!: image_eqI [where x = i])
  with assms show False
    by (auto simp: first_rejection_def split: list.splits)
qed

lemma promise_all6_Inr_iff:
  "promise_all6 ord p1 p2 p3 p4 p5 p6 = Inr v \<longleftrightarrow>
     p1 = Inr (fst v) \<and> p2 = Inr (fst (snd v)) \<and> p3 = Inr (fst (snd (snd v)))
     \<and> p4 = Inr (fst (snd (snd (snd v)))) \<and> p5 = Inr (fst (snd (snd (snd (snd v)))))
     \<and> p6 = Inr (snd (snd (snd (snd (snd v)))))"
  by (cases p1; cases p2; cases p3; cases p4; cases p5; cases p6)
    (auto simp: promise_all6_def split: option.splits)

lemma promise_all6_Inl:
  assumes "promise_all6 ord p1 p2 p3 p4 p5 p6 = Inl e"
  shows "Some e \<in> set [rejection_of p1, rejection_of p2, rejection_of p3,
                        rejection_of p4, rejection_of p5, rejection_of p6]"
proof (cases "first_rejection ord [rejection_of p1, rejection_of p2, rejection_of p3,
                        rejection_of p4, rejection_of p5, rejection_of p6]")
  case None
  have "\<forall>e. Some e \<notin> set [rejection_of p1, rejection_of p2, rejection_of p3,
                        rejection_of p4, rejection_of p5, rejection_of p6]"
    using first_rejection_None [OF None] by blast
  then have "\<exists>v1 v2 v3 v4 v5 v6. p1 = Inr v1 \<and> p2 = Inr v2 \<and> p3 = Inr v3 \<and> p4 = Inr v4
      \<and> p5 = Inr v5 \<and> p6 = Inr v6"
    by (cases p1; cases p2; cases p3; cases p4; cases p5; cases p6) auto
  with assms show ?thesis by (auto simp: promise_all6_def)
next
  case (Some e')
  from first_rejection_Some [OF Some]
  have in_set: "Some e' \<in> set [rejection_of p1, rejection_of p2, rejection_of p3,
                        rejection_of p4, rejection_of p5, rejection_of p6]" .
  then have "\<not> (\<exists>v1 v2 v3 v4 v5 v6. p1 = Inr v1 \<and> p2 = Inr v2 \<and> p3 = Inr v3 \<and> p4 = Inr v4
      \<and> p5 = Inr v5 \<and> p6 = Inr v6)"
    by auto
  then have "promise_all6 ord p1 p2 p3 p4 p5 p6 = Inl e'"
    using Some
    by (cases p1; cases p2; cases p3; cases p4; cases p5; cases p6)
      (simp_all add: promise_all6_def)
  with assms have "e = e'" by simp
  with in_set show ?thesis by simp
qed

text \<open>A successful run fetched all six values and computed its result from them.\<close>

lemma fetchData_InrE:
  assumes "fst (fetchData W M config a) = Inr res"
  obtains sid c0 tsid c1 c2 c3 c4 rs items statusItems columnItems secs terms where
    "site_get W (url config) = Inr sid"
    and "field_get W (phase_field_request c0) = Inr tsid"
    and "search W (hub_query sid) = Inr rs"
    and "projects_get W (projects_request (url config) c1) = Inr items"
    and "status_get W (project_status_request (url config) c2) = Inr statusItems"
    and "column_configurations_get W (column_configuration_request (url config) c4)
           = Inr columnItems"
    and "sections_get W (status_sections_request (url config) c3) = Inr secs"
    and "terms_get W tsid = Inr terms"
    and "res = build_result M
           (foldl sites_step Map.empty rs, items, statusItems,
            foldl column_configuration_step Map.empty columnItems, secs, terms)"
proof (cases rule: fetchData_cases [of W config M a])
  case (site_failed e)
  with assms show ?thesis by simp
next
  case (cache_failed sid e)
  with assms show ?thesis by simp
next
  case (field_failed sid c0 e a2)
  with assms show ?thesis by simp
next
  case (requested sid c0 tsid c1 c2 c3 c4 a3 p1 p2 p3 p4 p5 p6)
  from assms requested(9) obtain f where
    pa: "promise_all6 (settle_order W) p1 p2 p3 p4 p5 p6 = Inr f" and res: "res = build_result M f"
    by (cases "promise_all6 (settle_order W) p1 p2 p3 p4 p5 p6") auto
  obtain sites items statusItems cc secs terms where
    f: "f = (sites, items, statusItems, cc, secs, terms)"
    by (cases f) auto
  from pa f have p: "p1 = Inr sites" "p2 = Inr items" "p3 = Inr statusItems" "p4 = Inr cc"
    "p5 = Inr secs" "p6 = Inr terms"
    by (simp_all add: promise_all6_Inr_iff)
  from p(1) requested(3) obtain rs where
    rs: "search W (hub_query sid) = Inr rs" "sites = foldl sites_step Map.empty rs"
    by (cases "search W (hub_query sid)") auto
  from p(4) requested(6) obtain columnItems where
    ci: "column_configurations_get W (column_configuration_request (url config) c4)
           = Inr columnItems"
      "cc = foldl column_configuration_step Map.empty columnItems"
    by (cases "column_configurations_get W (column_configuration_request (url config) c4)")
      auto
  from requested(1,2) rs ci p(2,3,5,6) requested(4,5,7,8) res f
  show ?thesis by (intro that [of sid c0 tsid rs c1 items c2 statusItems c4 columnItems c3 secs terms]) simp_all
qed

section \<open>The reducers\<close>

lemma find_append_eq:
  "find P (xs @ ys) = (case find P xs of Some x \<Rightarrow> Some x | None \<Rightarrow> find P ys)"
  by (induction xs) auto

lemma foldl_sites_step:
  "foldl sites_step m rs k = (case last_title rs k of Some t \<Rightarrow> Some t | None \<Rightarrow> m k)"
proof (induction rs rule: rev_induct)
  case Nil
  show ?case by (simp add: last_title_def)
next
  case (snoc r rs)
  then show ?case by (simp add: last_title_def sites_step_def)
qed

lemma sites_last_title: "foldl sites_step Map.empty rs = last_title rs"
  by (rule ext) (simp add: foldl_sites_step split: option.splits)

lemma dom_last_title: "dom (last_title rs) = SiteId ` set rs"
proof -
  have "last_title rs k \<noteq> None \<longleftrightarrow> k \<in> SiteId ` set rs" for k
    by (auto simp: last_title_def find_None_iff)
  then show ?thesis by (auto simp: dom_def)
qed

lemma last_title_later:
  assumes "SiteId later \<notin> SiteId ` set post"
  shows "last_title (pre @ later # post) (SiteId later) = Some (Title later)"
proof -
  from assms have "\<forall>x \<in> set post. SiteId x \<noteq> SiteId later"
    by (metis image_eqI)
  then have "find (\<lambda>r. SiteId r = SiteId later) (rev post) = None"
    by (simp add: find_None_iff)
  then show ?thesis by (simp add: last_title_def find_append_eq)
qed

lemma foldl_step_key:
  "foldl column_configuration_step obj items k =
     foldl (\<lambda>e i. Some (entry_update e i)) (obj k) (filter (\<lambda>i. column_key i = k) items)"
  by (induction items arbitrary: obj)
    (auto simp: column_configuration_step_def column_key_def Let_def)

lemma first_truthy_snoc:
  "first_truthy (ts @ [t]) = (if truthy_str (first_truthy ts) then first_truthy ts else t)"
  by (auto simp: first_truthy_def truthy_str_def split: list.splits dest: filter_eq_ConsD)

lemma first_truthy_hd:
  "ts \<noteq> [] \<Longrightarrow> truthy_str (hd ts) \<Longrightarrow> first_truthy ts = hd ts"
  by (cases ts) (simp_all add: first_truthy_def)

lemma last_color_stored_snoc:
  "last_color (stored_items (items @ [i]))
     = assign_property (last_color (stored_items items))
         (GtPortfolioColumnValue i) (GtPortfolioColumnColor i)"
  by (auto simp: last_color_def stored_items_def assign_property_def fun_eq_iff)

lemma entry_update_None:
  "entry_update None i =
     \<lparr> name = Some (column_Title (GtPortfolioColumn i)),
       colors = Some (assign_property Map.empty
                        (GtPortfolioColumnValue i) (GtPortfolioColumnColor i)) \<rparr>"
  by (simp add: entry_update_def)

lemma entry_update_Some:
  "entry_update (Some \<lparr> name = Some n, colors = Some c \<rparr>) i =
     \<lparr> name = Some (if truthy_str n then n else column_Title (GtPortfolioColumn i)),
       colors = Some (assign_property c
                        (GtPortfolioColumnValue i) (GtPortfolioColumnColor i)) \<rparr>"
  by (simp add: entry_update_def)

lemma foldl_entry_update:
  "items \<noteq> [] \<Longrightarrow>
   foldl (\<lambda>e i. Some (entry_update e i)) None items =
     Some \<lparr> name = Some (first_truthy (map (column_Title \<circ> GtPortfolioColumn) items)),
            colors = Some (last_color (stored_items items)) \<rparr>"
proof (induction items rule: rev_induct)
  case Nil
  then show ?case by simp
next
  case (snoc i items)
  show ?case
  proof (cases "items = []")
    case True
    have "last_color (stored_items []) = Map.empty"
      by (rule ext) (simp add: last_color_def stored_items_def)
    with last_color_stored_snoc [of "[]" i]
    have "last_color (stored_items [i]) = assign_property Map.empty
        (GtPortfolioColumnValue i) (GtPortfolioColumnColor i)"
      by simp
    with True show ?thesis
      by (simp add: entry_update_None first_truthy_def truthy_str_def)
  next
    case False
    with snoc show ?thesis
      by (simp add: entry_update_Some first_truthy_snoc last_color_stored_snoc)
  qed
qed

lemma column_configurations_entry:
  "foldl column_configuration_step Map.empty items k =
     (if filter (\<lambda>i. column_key i = k) items = [] then None
      else Some \<lparr> name = Some (first_truthy (map (column_Title \<circ> GtPortfolioColumn)
                                 (filter (\<lambda>i. column_key i = k) items))),
                  colors = Some (last_color
                                   (stored_items (filter (\<lambda>i. column_key i = k) items))) \<rparr>)"
  by (simp add: foldl_step_key foldl_entry_update)

lemma dom_column_configurations:
  "dom (foldl column_configuration_step Map.empty items) = column_key ` set items"
proof -
  have "foldl column_configuration_step Map.empty items k \<noteq> None \<longleftrightarrow> k \<in> column_key ` set items"
    for k
    by (auto simp: column_configurations_entry filter_empty_conv)
  then show ?thesis by (auto simp: dom_def)
qed

section \<open>Claims about the data adapter\<close>

lemma map_filter_map_comp: "List.map_filter f (map g xs) = List.map_filter (\<lambda>x. f (g x)) xs"
  by (induction xs) (simp_all add: List.map_filter_def)

lemma map_filter_site_gate:
  "List.map_filter (site_gate M sites) built =
     map (\<lambda>q. setTitle M q (the (get_property sites (project_siteId M q))))
       (filter (\<lambda>q. case get_property sites (project_siteId M q) of
                       None \<Rightarrow> False | Some v \<Rightarrow> truthy_property v)
          built)"
  by (induction built) (auto simp: List.map_filter_def site_gate_def split: option.splits)

lemma get_property_cases:
  "get_property sites k =
     (case sites k of
        Some t \<Rightarrow> Some (OwnString t)
      | None \<Rightarrow> if k \<in> set object_prototype_names then Some (PrototypeMember k) else None)"
  by (simp add: get_property_def)

lemma find_filter: "find Q (filter P xs) = find (\<lambda>x. P x \<and> Q x) xs"
  by (induction xs) auto

lemma last_color_stored:
  assumes "v \<noteq> ''__proto__''"
  shows "last_color (stored_items xs) v = last_color xs v"
proof -
  from assms
  have "find (\<lambda>x. GtPortfolioColumnValue x \<noteq> ''__proto__'' \<and> GtPortfolioColumnValue x = v) ys
      = find (\<lambda>x. GtPortfolioColumnValue x = v) ys"
    for ys :: "IPortfolioColumnConfigurationItem list"
    by (intro find_cong) auto
  then show ?thesis
    by (simp only: last_color_def stored_items_def rev_filter find_filter)
qed

lemma last_color_stored_proto: "last_color (stored_items xs) ''__proto__'' = None"
  by (simp add: last_color_def stored_items_def rev_filter find_filter find_None_iff)

lemma build_result_projects:
  "projects (build_result M (sites, items, statusItems, cc, secs, terms)) =
     List.map_filter (site_gate M sites)
       (map (built_project M (map (\<lambda>i. newProjectStatusModel M i cc secs) statusItems)) items)"
proof -
  have "project_of M sites st = (\<lambda>item. site_gate M sites (built_project M st item))" for st
    by (rule ext) (simp add: project_of_def)
  then show ?thesis
    by (simp add: build_result_def Let_def map_filter_map_comp)
qed

lemma build_result_phases:
  "phases (build_result M (sites, items, statusItems, cc, secs, terms)) =
     map pick_phase (filter show_on_frontpage terms)"
  by (simp add: build_result_def Let_def)

text \<open>
  C1: in a successful run of \<^verbatim>\<open>fetchData\<close>, for any portfolio configuration, the
  status models are built from the fetched status items in their order, and the
  project model of every fetched project item is constructed from the item and the
  list of exactly those status models whose \<^verbatim>\<open>siteId\<close> equals the item's
  \<^verbatim>\<open>GtSiteId\<close>, in the order in which the status items were fetched. The returned
  projects are these project models, passed through the site gate of lines 144-147.
\<close>

theorem C1_project_status_by_site:
  assumes "fst (fetchData W M config a) = Inr res"
  shows "\<exists>c1 c2 sites items statusItems cc secs status.
      projects_get W (projects_request (url config) c1) = Inr items
    \<and> status_get W (project_status_request (url config) c2) = Inr statusItems
    \<and> status = map (\<lambda>i. newProjectStatusModel M i cc secs) statusItems
    \<and> projects res = List.map_filter (site_gate M sites) (map (built_project M status) items)
    \<and> (\<forall>item.
          built_project M status item
            = newProjectModel M item (filter (\<lambda>s. status_siteId M s = GtSiteId item) status)
        \<and> subseq (filter (\<lambda>s. status_siteId M s = GtSiteId item) status) status
        \<and> (\<forall>s. s \<in> set (filter (\<lambda>s. status_siteId M s = GtSiteId item) status)
                \<longleftrightarrow> s \<in> set status \<and> status_siteId M s = GtSiteId item)
        \<and> filter (\<lambda>s. status_siteId M s = GtSiteId item) status
            = map (\<lambda>i. newProjectStatusModel M i cc secs)
                (filter (\<lambda>i. status_siteId M (newProjectStatusModel M i cc secs) = GtSiteId item)
                   statusItems))"
proof -
  from assms obtain sid c0 tsid c1 c2 c3 c4 rs items statusItems columnItems secs terms where
    "site_get W (url config) = Inr sid"
    and "field_get W (phase_field_request c0) = Inr tsid"
    and "search W (hub_query sid) = Inr rs"
    and items: "projects_get W (projects_request (url config) c1) = Inr items"
    and statusItems: "status_get W (project_status_request (url config) c2) = Inr statusItems"
    and "column_configurations_get W (column_configuration_request (url config) c4)
           = Inr columnItems"
    and "sections_get W (status_sections_request (url config) c3) = Inr secs"
    and "terms_get W tsid = Inr terms"
    and res: "res = build_result M
           (foldl sites_step Map.empty rs, items, statusItems,
            foldl column_configuration_step Map.empty columnItems, secs, terms)"
    by (rule fetchData_InrE)
  define cc where "cc = foldl column_configuration_step Map.empty columnItems"
  define status where "status = map (\<lambda>i. newProjectStatusModel M i cc secs) statusItems"
  have built: "projects res =
      List.map_filter (site_gate M (foldl sites_step Map.empty rs))
        (map (built_project M status) items)"
    unfolding res status_def cc_def by (rule build_result_projects)
  have each: "built_project M status item
            = newProjectModel M item (filter (\<lambda>s. status_siteId M s = GtSiteId item) status)
        \<and> subseq (filter (\<lambda>s. status_siteId M s = GtSiteId item) status) status
        \<and> (\<forall>s. s \<in> set (filter (\<lambda>s. status_siteId M s = GtSiteId item) status)
                \<longleftrightarrow> s \<in> set status \<and> status_siteId M s = GtSiteId item)
        \<and> filter (\<lambda>s. status_siteId M s = GtSiteId item) status
            = map (\<lambda>i. newProjectStatusModel M i cc secs)
                (filter (\<lambda>i. status_siteId M (newProjectStatusModel M i cc secs) = GtSiteId item)
                   statusItems)" for item
  proof (intro conjI)
    show "built_project M status item
            = newProjectModel M item (filter (\<lambda>s. status_siteId M s = GtSiteId item) status)"
      by (simp add: built_project_def)
    show "subseq (filter (\<lambda>s. status_siteId M s = GtSiteId item) status) status"
      by (rule subseq_filter_left)
    show "\<forall>s. s \<in> set (filter (\<lambda>s. status_siteId M s = GtSiteId item) status)
                \<longleftrightarrow> s \<in> set status \<and> status_siteId M s = GtSiteId item"
      by simp
    show "filter (\<lambda>s. status_siteId M s = GtSiteId item) status
            = map (\<lambda>i. newProjectStatusModel M i cc secs)
                (filter (\<lambda>i. status_siteId M (newProjectStatusModel M i cc secs) = GtSiteId item)
                   statusItems)"
      by (simp add: status_def filter_map comp_def)
  qed
  from items statusItems status_def built each show ?thesis by blast
qed

theorem C1_witness:
  "fst (fetchData ex_world ex_models ex_config ex_adapter) = Inr ex_result
   \<and> (\<exists>c1 c2 sites items statusItems cc secs status.
      projects_get ex_world (projects_request (url ex_config) c1) = Inr items
    \<and> status_get ex_world (project_status_request (url ex_config) c2) = Inr statusItems
    \<and> status = map (\<lambda>i. newProjectStatusModel ex_models i cc secs) statusItems
    \<and> projects ex_result
        = List.map_filter (site_gate ex_models sites) (map (built_project ex_models status) items)
    \<and> (\<forall>item.
          built_project ex_models status item
            = newProjectModel ex_models item
                (filter (\<lambda>s. status_siteId ex_models s = GtSiteId item) status)
        \<and> subseq (filter (\<lambda>s. status_siteId ex_models s = GtSiteId item) status) status
        \<and> (\<forall>s. s \<in> set (filter (\<lambda>s. status_siteId ex_models s = GtSiteId item) status)
                \<longleftrightarrow> s \<in> set status \<and> status_siteId ex_models s = GtSiteId item)
        \<and> filter (\<lambda>s. status_siteId ex_models s = GtSiteId item) status
            = map (\<lambda>i. newProjectStatusModel ex_models i cc secs)
                (filter (\<lambda>i. status_siteId ex_models (newProjectStatusModel ex_models i cc secs)
                               = GtSiteId item)
                   statusItems)))"
proof -
  have run: "fst (fetchData ex_world ex_models ex_config ex_adapter) = Inr ex_result"
    by (simp add: adapter_eval format_eval ex_eval)
  from run C1_project_status_by_site [OF run] show ?thesis by (rule conjI)
qed

text \<open>
  C2, as the code has it: in a successful run, the returned projects are, in the order
  of the project items, the built project models for which the property access
  \<^verbatim>\<open>_sites[project.siteId]\<close> is truthy, each with its title set to what that access
  yields. For a \<^verbatim>\<open>siteId\<close> that is a key of the map that \<^verbatim>\<open>searchSitesInHub\<close> folds
  from the hub's search results it yields the mapped Title; for one that is not a key
  it yields the inherited member when the \<^verbatim>\<open>siteId\<close> is the name of a property of
  \<^verbatim>\<open>Object.prototype\<close>, and nothing otherwise. So every returned project either has
  its \<^verbatim>\<open>siteId\<close> among the keys and carries the mapped Title, or has a \<^verbatim>\<open>siteId\<close>
  that is no key but such an inherited name; a project whose \<^verbatim>\<open>siteId\<close> is neither a
  key nor an inherited name is dropped, and one whose \<^verbatim>\<open>siteId\<close> is no key but an
  inherited name is kept.
\<close>

theorem C2_projects_gated_by_hub_sites:
  assumes "fst (fetchData W M config a) = Inr res"
  shows "\<exists>sid rs sites c1 items status built.
      site_get W (url config) = Inr sid
    \<and> search W (hub_query sid) = Inr rs
    \<and> fst (searchSitesInHub W sid) = Inr sites
    \<and> projects_get W (projects_request (url config) c1) = Inr items
    \<and> built = map (built_project M status) items
    \<and> projects res =
        map (\<lambda>q. setTitle M q (the (get_property sites (project_siteId M q))))
          (filter (\<lambda>q. case get_property sites (project_siteId M q) of
                          None \<Rightarrow> False | Some v \<Rightarrow> truthy_property v) built)
    \<and> (\<forall>p \<in> set (projects res). \<exists>q \<in> set built.
          (\<exists>t. sites (project_siteId M q) = Some t \<and> p = setTitle M q (OwnString t))
          \<or> (project_siteId M q \<notin> dom sites
              \<and> project_siteId M q \<in> set object_prototype_names
              \<and> p = setTitle M q (PrototypeMember (project_siteId M q))))
    \<and> (\<forall>q \<in> set built. project_siteId M q \<notin> dom sites
          \<longrightarrow> project_siteId M q \<notin> set object_prototype_names
          \<longrightarrow> site_gate M sites q = None)
    \<and> (\<forall>q \<in> set built. project_siteId M q \<notin> dom sites
          \<longrightarrow> project_siteId M q \<in> set object_prototype_names
          \<longrightarrow> site_gate M sites q
                = Some (setTitle M q (PrototypeMember (project_siteId M q))))"
proof -
  from assms obtain sid c0 tsid c1 c2 c3 c4 rs items statusItems columnItems secs terms where
    sid: "site_get W (url config) = Inr sid"
    and "field_get W (phase_field_request c0) = Inr tsid"
    and rs: "search W (hub_query sid) = Inr rs"
    and items: "projects_get W (projects_request (url config) c1) = Inr items"
    and "status_get W (project_status_request (url config) c2) = Inr statusItems"
    and "column_configurations_get W (column_configuration_request (url config) c4)
           = Inr columnItems"
    and "sections_get W (status_sections_request (url config) c3) = Inr secs"
    and "terms_get W tsid = Inr terms"
    and res: "res = build_result M
           (foldl sites_step Map.empty rs, items, statusItems,
            foldl column_configuration_step Map.empty columnItems, secs, terms)"
    by (rule fetchData_InrE)
  define sites where "sites = foldl sites_step Map.empty rs"
  define status where "status =
      map (\<lambda>i. newProjectStatusModel M i (foldl column_configuration_step Map.empty columnItems)
         secs) statusItems"
  define built where "built = map (built_project M status) items"
  from rs have search: "fst (searchSitesInHub W sid) = Inr sites"
    by (simp add: searchSitesInHub_def sites_def Let_def)
  have "projects res = List.map_filter (site_gate M sites) built"
    unfolding res sites_def built_def status_def by (rule build_result_projects)
  then have exact: "projects res =
        map (\<lambda>q. setTitle M q (the (get_property sites (project_siteId M q))))
          (filter (\<lambda>q. case get_property sites (project_siteId M q) of
                          None \<Rightarrow> False | Some v \<Rightarrow> truthy_property v) built)"
    by (simp only: map_filter_site_gate)
  have returned: "\<forall>p \<in> set (projects res). \<exists>q \<in> set built.
          (\<exists>t. sites (project_siteId M q) = Some t \<and> p = setTitle M q (OwnString t))
          \<or> (project_siteId M q \<notin> dom sites
              \<and> project_siteId M q \<in> set object_prototype_names
              \<and> p = setTitle M q (PrototypeMember (project_siteId M q)))"
  proof
    fix p assume "p \<in> set (projects res)"
    then obtain q where q: "q \<in> set built"
      and p: "p = setTitle M q (the (get_property sites (project_siteId M q)))"
      and kept: "(case get_property sites (project_siteId M q) of
                          None \<Rightarrow> False | Some v \<Rightarrow> truthy_property v)"
      unfolding exact by auto
    show "\<exists>q \<in> set built.
          (\<exists>t. sites (project_siteId M q) = Some t \<and> p = setTitle M q (OwnString t))
          \<or> (project_siteId M q \<notin> dom sites
              \<and> project_siteId M q \<in> set object_prototype_names
              \<and> p = setTitle M q (PrototypeMember (project_siteId M q)))"
    proof (cases "sites (project_siteId M q)")
      case (Some t)
      with p have "p = setTitle M q (OwnString t)" by (simp add: get_property_cases)
      with Some q show ?thesis by blast
    next
      case None
      with kept have inh: "project_siteId M q \<in> set object_prototype_names"
        by (simp add: get_property_cases split: if_splits)
      with None p have "p = setTitle M q (PrototypeMember (project_siteId M q))"
        by (simp add: get_property_cases)
      with None inh q show ?thesis by (auto simp: dom_def)
    qed
  qed
  have dropped: "\<forall>q \<in> set built. project_siteId M q \<notin> dom sites
          \<longrightarrow> project_siteId M q \<notin> set object_prototype_names
          \<longrightarrow> site_gate M sites q = None"
    by (auto simp: site_gate_def get_property_cases dom_def split: option.splits)
  have kept: "\<forall>q \<in> set built. project_siteId M q \<notin> dom sites
          \<longrightarrow> project_siteId M q \<in> set object_prototype_names
          \<longrightarrow> site_gate M sites q
                = Some (setTitle M q (PrototypeMember (project_siteId M q)))"
    by (auto simp: site_gate_def get_property_cases dom_def split: option.splits)
  from sid rs search items built_def exact returned dropped kept show ?thesis by blast
qed

theorem C2_witness:
  "fst (fetchData ex_world_inherited ex_models ex_config ex_adapter) = Inr ex_result_inherited
   \<and> (\<exists>sites status.
         fst (searchSitesInHub ex_world_inherited ''hub'') = Inr sites
       \<and> ''s3'' \<notin> dom sites \<and> ''s3'' \<notin> set object_prototype_names
       \<and> site_gate ex_models sites
           (built_project ex_models status \<lparr> GtSiteId = ''s3'', project_fields = [] \<rparr>) = None
       \<and> ''toString'' \<notin> dom sites \<and> ''toString'' \<in> set object_prototype_names
       \<and> site_gate ex_models sites
           (built_project ex_models status \<lparr> GtSiteId = ''toString'', project_fields = [] \<rparr>)
           = Some (setTitle ex_models
                (built_project ex_models status \<lparr> GtSiteId = ''toString'', project_fields = [] \<rparr>)
                (PrototypeMember ''toString''))
       \<and> (\<exists>q. (\<exists>t. sites (project_siteId ex_models q) = Some t
                  \<and> hd (projects ex_result_inherited) = setTitle ex_models q (OwnString t))
              \<or> (project_siteId ex_models q \<notin> dom sites
                  \<and> project_siteId ex_models q \<in> set object_prototype_names
                  \<and> hd (projects ex_result_inherited)
                      = setTitle ex_models q (PrototypeMember (project_siteId ex_models q)))))"
proof -
  let ?s3 = "\<lparr> GtSiteId = ''s3'', project_fields = [] \<rparr>"
  let ?ts = "\<lparr> GtSiteId = ''toString'', project_fields = [] \<rparr>"
  have run: "fst (fetchData ex_world_inherited ex_models ex_config ex_adapter)
      = Inr ex_result_inherited"
    by (simp add: adapter_eval format_eval ex_eval)
  from C2_projects_gated_by_hub_sites [OF run]
  obtain sid rs sites c1 items status built where
    sid: "site_get ex_world_inherited (url ex_config) = Inr sid"
    and search: "fst (searchSitesInHub ex_world_inherited sid) = Inr sites"
    and items: "projects_get ex_world_inherited (projects_request (url ex_config) c1) = Inr items"
    and built: "built = map (built_project ex_models status) items"
    and returned: "\<forall>p \<in> set (projects ex_result_inherited). \<exists>q \<in> set built.
          (\<exists>t. sites (project_siteId ex_models q) = Some t
             \<and> p = setTitle ex_models q (OwnString t))
          \<or> (project_siteId ex_models q \<notin> dom sites
              \<and> project_siteId ex_models q \<in> set object_prototype_names
              \<and> p = setTitle ex_models q (PrototypeMember (project_siteId ex_models q)))"
    and dropped: "\<forall>q \<in> set built. project_siteId ex_models q \<notin> dom sites
          \<longrightarrow> project_siteId ex_models q \<notin> set object_prototype_names
          \<longrightarrow> site_gate ex_models sites q = None"
    and kept: "\<forall>q \<in> set built. project_siteId ex_models q \<notin> dom sites
          \<longrightarrow> project_siteId ex_models q \<in> set object_prototype_names
          \<longrightarrow> site_gate ex_models sites q
                = Some (setTitle ex_models q (PrototypeMember (project_siteId ex_models q)))"
    by blast
  from sid have hub: "sid = ''hub''" by (simp add: ex_world_inherited_def ex_world_def)
  from search hub have sites: "sites = foldl sites_step Map.empty ex_search_results"
    by (simp add: searchSitesInHub_def ex_world_inherited_def ex_world_def Let_def)
  then have absent: "''s3'' \<notin> dom sites" "''toString'' \<notin> dom sites"
    by (simp_all add: ex_search_results_def sites_step_def dom_def)
  have names: "''s3'' \<notin> set object_prototype_names"
    "''toString'' \<in> set object_prototype_names"
    by (simp_all add: object_prototype_names_def)
  from items have "items = ex_project_items @ [?ts]"
    by (simp add: ex_world_inherited_def)
  with built have member: "built_project ex_models status ?s3 \<in> set built"
    "built_project ex_models status ?ts \<in> set built"
    by (simp_all add: ex_project_items_def)
  have ids: "project_siteId ex_models (built_project ex_models status ?s3) = ''s3''"
    "project_siteId ex_models (built_project ex_models status ?ts) = ''toString''"
    by (simp_all add: ex_models_def built_project_def)
  from dropped member(1) absent(1) names(1) ids(1)
  have gone: "site_gate ex_models sites (built_project ex_models status ?s3) = None"
    by metis
  from kept member(2) absent(2) names(2) ids(2)
  have stays: "site_gate ex_models sites (built_project ex_models status ?ts)
      = Some (setTitle ex_models (built_project ex_models status ?ts) (PrototypeMember ''toString''))"
    by metis
  have "hd (projects ex_result_inherited) \<in> set (projects ex_result_inherited)"
    by (simp add: ex_result_inherited_def ex_result_def)
  with returned have first: "\<exists>q.
      (\<exists>t. sites (project_siteId ex_models q) = Some t
          \<and> hd (projects ex_result_inherited) = setTitle ex_models q (OwnString t))
      \<or> (project_siteId ex_models q \<notin> dom sites
          \<and> project_siteId ex_models q \<in> set object_prototype_names
          \<and> hd (projects ex_result_inherited)
              = setTitle ex_models q (PrototypeMember (project_siteId ex_models q)))"
    by blast
  from run search hub absent names gone stays first show ?thesis by blast
qed

text \<open>
  C2 with "only those projects whose siteId occurs as a key" fails for a project whose
  \<^verbatim>\<open>siteId\<close> is the name of an inherited property: in the example the hub's search
  results have the SiteIds \<^verbatim>\<open>s1\<close> and \<^verbatim>\<open>s2\<close>, and the project with the \<^verbatim>\<open>siteId\<close>
  \<^verbatim>\<open>toString\<close> is returned.
\<close>

theorem C2_counterexample:
  "fst (fetchData ex_world_inherited ex_models ex_config ex_adapter) = Inr ex_result_inherited
   \<and> map (project_siteId ex_models) (projects ex_result_inherited) = [''s1'', ''toString'']
   \<and> search ex_world_inherited (hub_query ''hub'') = Inr ex_search_results
   \<and> ''toString'' \<notin> SiteId ` set ex_search_results"
  by (simp add: adapter_eval format_eval ex_eval)

text \<open>
  C3: in a successful run, the returned phases are the terms of the term set whose id
  the phase field request returned, without those whose \<^verbatim>\<open>ShowOnFrontpage\<close> custom
  property is the string \<^verbatim>\<open>false\<close>, each reduced to its Name and
  LocalCustomProperties, in the fetched order.
\<close>

theorem C3_phases_shown_on_frontpage:
  assumes "fst (fetchData W M config a) = Inr res"
  shows "\<exists>c0 tsid terms.
      field_get W (phase_field_request c0) = Inr tsid
    \<and> terms_get W tsid = Inr terms
    \<and> phases res =
        map (\<lambda>p. \<lparr> phase_Name = Name p, phase_LocalCustomProperties = LocalCustomProperties p \<rparr>)
          (filter (\<lambda>p. LocalCustomProperties p ''ShowOnFrontpage'' \<noteq> Some ''false'') terms)"
proof -
  from assms obtain sid c0 tsid c1 c2 c3 c4 rs items statusItems columnItems secs terms where
    "site_get W (url config) = Inr sid"
    and tsid: "field_get W (phase_field_request c0) = Inr tsid"
    and "search W (hub_query sid) = Inr rs"
    and "projects_get W (projects_request (url config) c1) = Inr items"
    and "status_get W (project_status_request (url config) c2) = Inr statusItems"
    and "column_configurations_get W (column_configuration_request (url config) c4)
           = Inr columnItems"
    and "sections_get W (status_sections_request (url config) c3) = Inr secs"
    and terms: "terms_get W tsid = Inr terms"
    and res: "res = build_result M
           (foldl sites_step Map.empty rs, items, statusItems,
            foldl column_configuration_step Map.empty columnItems, secs, terms)"
    by (rule fetchData_InrE)
  have pick: "pick_phase =
      (\<lambda>p. \<lparr> phase_Name = Name p, phase_LocalCustomProperties = LocalCustomProperties p \<rparr>)"
    by (rule ext) (simp add: pick_phase_def)
  have shown: "show_on_frontpage =
      (\<lambda>p. LocalCustomProperties p ''ShowOnFrontpage'' \<noteq> Some ''false'')"
    by (rule ext) (simp add: show_on_frontpage_def)
  have "phases res = map pick_phase (filter show_on_frontpage terms)"
    unfolding res by (rule build_result_phases)
  then have "phases res =
        map (\<lambda>p. \<lparr> phase_Name = Name p, phase_LocalCustomProperties = LocalCustomProperties p \<rparr>)
          (filter (\<lambda>p. LocalCustomProperties p ''ShowOnFrontpage'' \<noteq> Some ''false'') terms)"
    by (simp only: pick shown)
  with tsid terms show ?thesis by blast
qed

theorem C3_witness:
  "fst (fetchData ex_world ex_models ex_config ex_adapter) = Inr ex_result
   \<and> (\<exists>c0 tsid terms.
      field_get ex_world (phase_field_request c0) = Inr tsid
    \<and> terms_get ex_world tsid = Inr terms
    \<and> phases ex_result =
        map (\<lambda>p. \<lparr> phase_Name = Name p, phase_LocalCustomProperties = LocalCustomProperties p \<rparr>)
          (filter (\<lambda>p. LocalCustomProperties p ''ShowOnFrontpage'' \<noteq> Some ''false'') terms))"
proof -
  have run: "fst (fetchData ex_world ex_models ex_config ex_adapter) = Inr ex_result"
    by (simp add: adapter_eval format_eval ex_eval)
  from run C3_phases_shown_on_frontpage [OF run] show ?thesis by (rule conjI)
qed

text \<open>
  C4, as the code has it: \<^verbatim>\<open>getColumnConfigurations\<close> asks for at most 500 items
  whose column internal name starts with \<^verbatim>\<open>GtStatus\<close>. For a response that honours
  this filter, it returns a map keyed by the internal names of the items received, all
  of which start with \<^verbatim>\<open>GtStatus\<close>. The name of an entry is the first non-empty Title
  among the items with that internal name (empty when all are empty); it is the Title
  of the first such item whenever that Title is not empty. Its colors map each
  \<^verbatim>\<open>GtPortfolioColumnValue\<close> other than \<^verbatim>\<open>__proto__\<close> to the
  \<^verbatim>\<open>GtPortfolioColumnColor\<close> of the last item with that value; for the value
  \<^verbatim>\<open>__proto__\<close> no color is stored.
\<close>

theorem C4_column_configurations:
  assumes "site a = Some siteUrl"
    and "getCacheOptions (js_property W) ''column_configuration'' a = (Inr opts, a')"
    and "column_configurations_get W (column_configuration_request siteUrl opts) = Inr items"
    and "\<forall>i \<in> set items. prefix ''GtStatus'' (column_key i)"
  shows "\<exists>cc.
      getColumnConfigurations W a =
        (Inr cc, a', [(ItemsGet (column_configuration_request siteUrl opts), None)])
    \<and> top_q (column_configuration_request siteUrl opts) = 500
    \<and> filter_q (column_configuration_request siteUrl opts) =
        Some (''startswith(GtPortfolioColumn/GtInternalName,'' @ [CHR 0x27]
              @ ''GtStatus'' @ [CHR 0x27] @ '')'')
    \<and> dom cc = column_key ` set items
    \<and> (\<forall>k \<in> dom cc. prefix ''GtStatus'' k)
    \<and> (\<forall>k \<in> dom cc.
          cc k = Some \<lparr> name = Some (first_truthy (map (column_Title \<circ> GtPortfolioColumn)
                                       (filter (\<lambda>i. column_key i = k) items))),
                        colors = Some (last_color
                                   (stored_items (filter (\<lambda>i. column_key i = k) items))) \<rparr>)
    \<and> (\<forall>k \<in> dom cc.
          truthy_str (column_Title (GtPortfolioColumn (hd (filter (\<lambda>i. column_key i = k) items))))
          \<longrightarrow> configured_name (Inr cc) k =
                Some (column_Title (GtPortfolioColumn (hd (filter (\<lambda>i. column_key i = k) items)))))
    \<and> (\<forall>k \<in> dom cc. \<forall>v. v \<noteq> ''__proto__''
          \<longrightarrow> configured_color (Inr cc) k v =
                map_option GtPortfolioColumnColor
                  (find (\<lambda>i. GtPortfolioColumnValue i = v)
                     (rev (filter (\<lambda>i. column_key i = k) items))))
    \<and> (\<forall>k \<in> dom cc. configured_color (Inr cc) k ''__proto__'' = None)"
proof -
  define cc where "cc = foldl column_configuration_step Map.empty items"
  from assms(1-3) have run: "getColumnConfigurations W a =
        (Inr cc, a', [(ItemsGet (column_configuration_request siteUrl opts), None)])"
    by (simp add: getColumnConfigurations_def Let_def cc_def)
  have req: "top_q (column_configuration_request siteUrl opts) = 500"
    "filter_q (column_configuration_request siteUrl opts) =
        Some (''startswith(GtPortfolioColumn/GtInternalName,'' @ [CHR 0x27]
              @ ''GtStatus'' @ [CHR 0x27] @ '')'')"
    by (simp_all add: column_configuration_request_def)
  have keys: "dom cc = column_key ` set items"
    unfolding cc_def by (rule dom_column_configurations)
  with assms(4) have honoured: "\<forall>k \<in> dom cc. prefix ''GtStatus'' k"
    by auto
  have nonempty: "filter (\<lambda>i. column_key i = k) items \<noteq> []" if "k \<in> dom cc" for k
    using that keys by (auto simp: filter_empty_conv)
  have entry: "cc k = Some \<lparr> name = Some (first_truthy (map (column_Title \<circ> GtPortfolioColumn)
                                       (filter (\<lambda>i. column_key i = k) items))),
                        colors = Some (last_color
                                   (stored_items (filter (\<lambda>i. column_key i = k) items))) \<rparr>"
    if "k \<in> dom cc" for k
    using nonempty [OF that] unfolding cc_def by (simp add: column_configurations_entry)
  have first: "configured_name (Inr cc) k =
      Some (column_Title (GtPortfolioColumn (hd (filter (\<lambda>i. column_key i = k) items))))"
    if "k \<in> dom cc"
      and "truthy_str (column_Title (GtPortfolioColumn (hd (filter (\<lambda>i. column_key i = k) items))))"
    for k
  proof -
    from that(1) have ne: "filter (\<lambda>i. column_key i = k) items \<noteq> []" by (rule nonempty)
    with that(2)
    have "first_truthy (map (column_Title \<circ> GtPortfolioColumn) (filter (\<lambda>i. column_key i = k) items))
        = column_Title (GtPortfolioColumn (hd (filter (\<lambda>i. column_key i = k) items)))"
      by (subst first_truthy_hd) (simp_all add: hd_map)
    with entry [OF that(1)] show ?thesis by (simp add: configured_name_def)
  qed
  have color: "configured_color (Inr cc) k v =
      map_option GtPortfolioColumnColor
        (find (\<lambda>i. GtPortfolioColumnValue i = v) (rev (filter (\<lambda>i. column_key i = k) items)))"
    if "k \<in> dom cc" and "v \<noteq> ''__proto__''" for k v
    using entry [OF that(1)] last_color_stored [OF that(2)]
    by (simp add: configured_color_def last_color_def)
  have proto: "configured_color (Inr cc) k ''__proto__'' = None" if "k \<in> dom cc" for k
    using entry [OF that] by (simp add: configured_color_def last_color_stored_proto)
  from run req keys honoured entry first color proto show ?thesis by blast
qed

theorem C4_witness:
  "\<exists>cc. fst (getColumnConfigurations ex_world ex_adapter_fetching) = Inr cc
      \<and> dom cc = {''GtStatusRisk'', ''GtStatusTime''}
      \<and> configured_name (Inr cc) ''GtStatusRisk'' = Some ''Risk''
      \<and> configured_color (Inr cc) ''GtStatusRisk'' ''High'' = Some ''orange''
      \<and> configured_name (Inr cc) ''GtStatusTime'' = Some ''Time''
      \<and> configured_color (Inr cc) ''GtStatusTime'' ''Late'' = Some ''blue''
      \<and> configured_color (Inr cc) ''GtStatusTime'' ''__proto__'' = None"
proof -
  let ?opts = "\<lparr> expiration = 60, key = ''po_3_column_configuration'' \<rparr>"
  let ?a' = "ex_adapter_fetching\<lparr> cacheKeys := [''po_3_column_configuration''] \<rparr>"
  let ?risk = "filter (\<lambda>i. column_key i = ''GtStatusRisk'') ex_column_items"
  let ?time = "filter (\<lambda>i. column_key i = ''GtStatusTime'') ex_column_items"
  have s: "site ex_adapter_fetching = Some ''https://hub''"
    by (simp add: ex_eval usingCaching_def new_DataAdapter_def)
  have g: "getCacheOptions (js_property ex_world) ''column_configuration'' ex_adapter_fetching =
       (Inr ?opts, ?a')"
    by (simp add: getCacheOptions_def usingCaching_def new_DataAdapter_def format_eval ex_eval)
  have r: "column_configurations_get ex_world (column_configuration_request ''https://hub'' ?opts)
      = Inr ex_column_items"
    by (simp add: ex_world_def)
  have h: "\<forall>i \<in> set ex_column_items. prefix ''GtStatus'' (column_key i)"
    by (simp add: ex_column_items_def column_key_def)
  have risk_title: "first_truthy (map (column_Title \<circ> GtPortfolioColumn) ?risk) = ''Risk''"
    by (simp add: ex_column_items_def column_key_def first_truthy_def truthy_str_def)
  have risk_high: "map_option GtPortfolioColumnColor
      (find (\<lambda>i. GtPortfolioColumnValue i = ''High'') (rev ?risk)) = Some ''orange''"
    by (simp add: ex_column_items_def column_key_def)
  have time_title: "column_Title (GtPortfolioColumn (hd ?time)) = ''Time''"
    by (simp add: ex_column_items_def column_key_def)
  have time_late: "map_option GtPortfolioColumnColor
      (find (\<lambda>i. GtPortfolioColumnValue i = ''Late'') (rev ?time)) = Some ''blue''"
    by (simp add: ex_column_items_def column_key_def)
  have items_keys: "column_key ` set ex_column_items = {''GtStatusRisk'', ''GtStatusTime''}"
    by (simp add: ex_column_items_def column_key_def)
  from C4_column_configurations [OF s g r h] show ?thesis
  proof (elim exE conjE)
    fix cc
    assume run: "getColumnConfigurations ex_world ex_adapter_fetching =
        (Inr cc, ?a', [(ItemsGet (column_configuration_request ''https://hub'' ?opts), None)])"
      and keys: "dom cc = column_key ` set ex_column_items"
      and entry: "\<forall>k \<in> dom cc.
          cc k = Some \<lparr> name = Some (first_truthy (map (column_Title \<circ> GtPortfolioColumn)
                                       (filter (\<lambda>i. column_key i = k) ex_column_items))),
                        colors = Some (last_color
                                   (stored_items (filter (\<lambda>i. column_key i = k) ex_column_items))) \<rparr>"
      and first: "\<forall>k \<in> dom cc.
          truthy_str (column_Title (GtPortfolioColumn
                        (hd (filter (\<lambda>i. column_key i = k) ex_column_items))))
          \<longrightarrow> configured_name (Inr cc) k =
                Some (column_Title (GtPortfolioColumn
                        (hd (filter (\<lambda>i. column_key i = k) ex_column_items))))"
      and color: "\<forall>k \<in> dom cc. \<forall>v. v \<noteq> ''__proto__''
          \<longrightarrow> configured_color (Inr cc) k v =
                map_option GtPortfolioColumnColor
                  (find (\<lambda>i. GtPortfolioColumnValue i = v)
                     (rev (filter (\<lambda>i. column_key i = k) ex_column_items)))"
      and proto: "\<forall>k \<in> dom cc. configured_color (Inr cc) k ''__proto__'' = None"
    from keys items_keys have dom: "dom cc = {''GtStatusRisk'', ''GtStatusTime''}"
      by (simp only:)
    then have in_risk: "''GtStatusRisk'' \<in> dom cc" and in_time: "''GtStatusTime'' \<in> dom cc"
      by (simp_all only: insert_iff simp_thms)
    from entry in_risk have "cc ''GtStatusRisk'' =
        Some \<lparr> name = Some (first_truthy (map (column_Title \<circ> GtPortfolioColumn) ?risk)),
               colors = Some (last_color (stored_items ?risk)) \<rparr>"
      by (rule bspec)
    with risk_title have risk: "configured_name (Inr cc) ''GtStatusRisk'' = Some ''Risk''"
      by (simp add: configured_name_def)
    from color in_risk have "\<forall>v. v \<noteq> ''__proto__''
          \<longrightarrow> configured_color (Inr cc) ''GtStatusRisk'' v =
                map_option GtPortfolioColumnColor
                  (find (\<lambda>i. GtPortfolioColumnValue i = v) (rev ?risk))"
      by (rule bspec)
    then have "configured_color (Inr cc) ''GtStatusRisk'' ''High'' =
        map_option GtPortfolioColumnColor
          (find (\<lambda>i. GtPortfolioColumnValue i = ''High'') (rev ?risk))"
      by simp
    with risk_high have high: "configured_color (Inr cc) ''GtStatusRisk'' ''High'' = Some ''orange''"
      by (simp only:)
    from color in_time have "\<forall>v. v \<noteq> ''__proto__''
          \<longrightarrow> configured_color (Inr cc) ''GtStatusTime'' v =
                map_option GtPortfolioColumnColor
                  (find (\<lambda>i. GtPortfolioColumnValue i = v) (rev ?time))"
      by (rule bspec)
    then have "configured_color (Inr cc) ''GtStatusTime'' ''Late'' =
        map_option GtPortfolioColumnColor
          (find (\<lambda>i. GtPortfolioColumnValue i = ''Late'') (rev ?time))"
      by simp
    with time_late have late: "configured_color (Inr cc) ''GtStatusTime'' ''Late'' = Some ''blue''"
      by (simp only:)
    from proto in_time have none: "configured_color (Inr cc) ''GtStatusTime'' ''__proto__'' = None"
      by (rule bspec)
    from first in_time have "truthy_str (column_Title (GtPortfolioColumn (hd ?time)))
          \<longrightarrow> configured_name (Inr cc) ''GtStatusTime'' =
                Some (column_Title (GtPortfolioColumn (hd ?time)))"
      by (rule bspec)
    with time_title have time: "configured_name (Inr cc) ''GtStatusTime'' = Some ''Time''"
      by (simp add: truthy_str_def)
    from run have "fst (getColumnConfigurations ex_world ex_adapter_fetching) = Inr cc"
      by simp
    with dom risk high time late none show ?thesis
      by blast
  qed
qed

text \<open>
  C4 with "the Title of the first item seen" fails where the first item of a column
  has an empty Title: in the example the first item for \<^verbatim>\<open>GtStatusRisk\<close> has an empty
  Title, and the entry gets the name \<^verbatim>\<open>Risk\<close> of the second item.
\<close>

theorem C4_counterexample:
  "configured_name (fst (getColumnConfigurations ex_world ex_adapter_fetching)) ''GtStatusRisk''
     = Some ''Risk''
   \<and> column_key (hd ex_column_items) = ''GtStatusRisk''
   \<and> column_Title (GtPortfolioColumn (hd ex_column_items)) = []"
  by (simp add: configured_name_def getColumnConfigurations_def getCacheOptions_def
      usingCaching_def new_DataAdapter_def format_eval ex_eval column_configuration_step_def
      entry_update_def assign_property_def truthy_str_def column_key_def Let_def)

text \<open>
  C5, as the code has it: for an alias that contains no brace, after
  \<^verbatim>\<open>usingCaching({expiration, alias})\<close> and with the current portfolio set, every call
  \<^verbatim>\<open>getCacheOptions(key)\<close> returns the options with the expiration passed to
  \<^verbatim>\<open>usingCaching\<close> and the key \<^verbatim>\<open>alias + '_' + config.id + '_' + key\<close>, and appends
  that key to \<^verbatim>\<open>cacheKeys\<close>; nothing else of the adapter changes, so the same holds for
  the next call. By \<open>fetchData_keeps_setup\<close> the adapter is in such a state from the
  first statement of \<^verbatim>\<open>fetchData\<close> on.
\<close>

theorem C5_cache_key_format:
  assumes "CHR ''{'' \<notin> set alias" and "CHR ''}'' \<notin> set alias"
    and "cacheOptions a = cacheOptions (usingCaching exp alias a0)"
    and "current a = Some config"
  shows "getCacheOptions js k a =
           (Inr \<lparr> expiration = exp,
                  key = alias @ ''_'' @ to_string (id_portfolio config) @ ''_'' @ k \<rparr>,
            a\<lparr> cacheKeys :=
                 cacheKeys a @ [alias @ ''_'' @ to_string (id_portfolio config) @ ''_'' @ k] \<rparr>)"
  using assms
  by (simp add: getCacheOptions_def usingCaching_def format_cache_key del: append.simps)

theorem C5_witness:
  "CHR ''{'' \<notin> set ''po'' \<and> CHR ''}'' \<notin> set ''po''
   \<and> cacheOptions ex_adapter_fetching = cacheOptions (usingCaching 60 ''po'' new_DataAdapter)
   \<and> current ex_adapter_fetching = Some ex_config
   \<and> getCacheOptions no_property ''projects'' ex_adapter_fetching =
       (Inr \<lparr> expiration = 60, key = ''po_3_projects'' \<rparr>,
        ex_adapter_fetching\<lparr> cacheKeys := cacheKeys ex_adapter_fetching @ [''po_3_projects''] \<rparr>)"
proof -
  have b: "CHR ''{'' \<notin> set ''po''" "CHR ''}'' \<notin> set ''po''" by simp_all
  have c: "cacheOptions ex_adapter_fetching = cacheOptions (usingCaching 60 ''po'' new_DataAdapter)"
    by (simp add: ex_adapter_fetching_def ex_adapter_def)
  have d: "current ex_adapter_fetching = Some ex_config"
    by (simp add: ex_adapter_fetching_def)
  have e: "to_string (id_portfolio ex_config) = ''3''"
    by (simp add: ex_config_def string_of_int_def string_of_nat.simps digit_char_def)
  from C5_cache_key_format [OF b c d, of no_property "''projects''"] e b c d
  show ?thesis by simp
qed

text \<open>
  C5 for every alias fails for an alias with braces: \<^verbatim>\<open>format\<close> reads the alias as
  part of the template. With the alias \<^verbatim>\<open>{0}\<close> and the portfolio id 3 the key for
  \<^verbatim>\<open>projects\<close> is \<^verbatim>\<open>3_3_projects\<close>, not \<^verbatim>\<open>{0}_3_projects\<close>.
\<close>

theorem C5_counterexample:
  "cacheOptions ex_adapter_braces = cacheOptions (usingCaching 60 ''{0}'' new_DataAdapter)
   \<and> current ex_adapter_braces = Some ex_config
   \<and> fst (getCacheOptions no_property ''projects'' ex_adapter_braces)
       = Inr \<lparr> expiration = 60, key = ''3_3_projects'' \<rparr>
   \<and> ''3_3_projects'' \<noteq> ''{0}'' @ ''_'' @ to_string (id_portfolio ex_config) @ ''_'' @ ''projects''"
  by (simp add: getCacheOptions_def usingCaching_def new_DataAdapter_def format_eval ex_eval)

text \<open>
  C7: \<^verbatim>\<open>fetchData\<close> neither catches nor retries. Whenever one of the requests it
  issued was rejected, \<^verbatim>\<open>fetchData\<close> is rejected, with the reason of one of the
  rejected requests (the first to reject in time, among the six concurrent ones); a
  result is returned only when every request was fulfilled, and it is the complete
  result. No request is issued twice.
\<close>

theorem C7_rejection_propagates:
  assumes "fetchData W M config a = (r, a', trace)"
  shows "((\<exists>c \<in> set trace. snd c \<noteq> None) \<longrightarrow> (\<exists>e q. r = Inl e \<and> (q, Some e) \<in> set trace))
       \<and> ((\<exists>res. r = Inr res) \<longrightarrow> (\<forall>c \<in> set trace. snd c = None))
       \<and> distinct (map fst trace)
       \<and> length trace \<le> 8"
proof (cases rule: fetchData_cases [of W config M a])
  case (site_failed e)
  with assms have "r = Inl e" and "trace = [(SiteGet (url config), Some e)]"
    by simp_all
  then show ?thesis by simp
next
  case (cache_failed sid e)
  with assms have "r = Inl e" and "trace = [(SiteGet (url config), None)]"
    by simp_all
  then show ?thesis by simp
next
  case (field_failed sid c0 e a2)
  with assms have "r = Inl e"
    and "trace = [(SiteGet (url config), None), (FieldGet (phase_field_request c0), Some e)]"
    by simp_all
  then show ?thesis by auto
next
  case (requested sid c0 tsid c1 c2 c3 c4 a3 p1 p2 p3 p4 p5 p6)
  let ?six = "[(Search (hub_query sid), rejection_of p1),
               (ItemsGet (projects_request (url config) c1), rejection_of p2),
               (ItemsGet (project_status_request (url config) c2), rejection_of p3),
               (ItemsGet (column_configuration_request (url config) c4), rejection_of p4),
               (ItemsGet (status_sections_request (url config) c3), rejection_of p5),
               (TermsGet tsid, rejection_of p6)]"
  from assms requested(9) have trace: "trace =
      (SiteGet (url config), None) # (FieldGet (phase_field_request c0), None) # ?six"
    and r: "r = (case promise_all6 (settle_order W) p1 p2 p3 p4 p5 p6 of
                Inl e \<Rightarrow> Inl e
              | Inr f \<Rightarrow> Inr (build_result M f))"
    by simp_all
  have dist: "distinct (map fst trace)" and len: "length trace \<le> 8"
    unfolding trace
    by (simp_all add: projects_request_def project_status_request_def
        column_configuration_request_def status_sections_request_def)
  show ?thesis
  proof (cases "promise_all6 (settle_order W) p1 p2 p3 p4 p5 p6")
    case (Inl e)
    then have "Some e \<in> set [rejection_of p1, rejection_of p2, rejection_of p3,
                        rejection_of p4, rejection_of p5, rejection_of p6]"
      by (rule promise_all6_Inl)
    then have "Some e \<in> set (map snd ?six)" by simp
    then have "\<exists>q. (q, Some e) \<in> set ?six" by (rule snd_in_set)
    then obtain q where "(q, Some e) \<in> set ?six" ..
    then have "(q, Some e) \<in> set trace" unfolding trace by (simp only: set_subset_Cons [THEN subsetD] list.set insert_iff simp_thms)
    then have "\<exists>q. (q, Some e) \<in> set trace" ..
    with Inl r dist len show ?thesis by auto
  next
    case (Inr f)
    then have "rejection_of p1 = None" "rejection_of p2 = None" "rejection_of p3 = None"
      "rejection_of p4 = None" "rejection_of p5 = None" "rejection_of p6 = None"
      by (simp_all add: promise_all6_Inr_iff)
    then have "\<forall>c \<in> set trace. snd c = None" unfolding trace by simp
    with Inr r dist len show ?thesis by auto
  qed
qed

theorem C7_witness:
  "fst (fetchData ex_world_down ex_models ex_config ex_adapter) = Inl (RequestFailed ''terms'')
   \<and> (TermsGet ''phases'', Some (RequestFailed ''terms''))
       \<in> set (snd (snd (fetchData ex_world_down ex_models ex_config ex_adapter)))
   \<and> (\<exists>e q. fst (fetchData ex_world_down ex_models ex_config ex_adapter) = Inl e
         \<and> (q, Some e) \<in> set (snd (snd (fetchData ex_world_down ex_models ex_config ex_adapter))))
   \<and> distinct (map fst (snd (snd (fetchData ex_world_down ex_models ex_config ex_adapter))))
   \<and> fst (fetchData ex_world ex_models ex_config ex_adapter) = Inr ex_result
   \<and> snd ` set (snd (snd (fetchData ex_world ex_models ex_config ex_adapter))) \<subseteq> {None}"
proof -
  obtain r a' trace where
    run: "fetchData ex_world_down ex_models ex_config ex_adapter = (r, a', trace)"
    by (cases "fetchData ex_world_down ex_models ex_config ex_adapter")
  have out: "fst (fetchData ex_world_down ex_models ex_config ex_adapter)
      = Inl (RequestFailed ''terms'')"
    by (simp add: adapter_eval format_eval ex_eval)
  have failed: "(TermsGet ''phases'', Some (RequestFailed ''terms''))
       \<in> set (snd (snd (fetchData ex_world_down ex_models ex_config ex_adapter)))"
    by (simp add: adapter_eval format_eval ex_eval)
  from failed run have "\<exists>c \<in> set trace. snd c \<noteq> None" by force
  with C7_rejection_propagates [OF run]
  have down: "(\<exists>e q. r = Inl e \<and> (q, Some e) \<in> set trace) \<and> distinct (map fst trace)"
    by blast
  obtain r2 a2 trace2 where
    run2: "fetchData ex_world ex_models ex_config ex_adapter = (r2, a2, trace2)"
    by (cases "fetchData ex_world ex_models ex_config ex_adapter")
  have ok: "fst (fetchData ex_world ex_models ex_config ex_adapter) = Inr ex_result"
    by (simp add: adapter_eval format_eval ex_eval)
  with run2 have "\<exists>res. r2 = Inr res" by simp
  with C7_rejection_propagates [OF run2] have "\<forall>c \<in> set trace2. snd c = None" by blast
  then have up: "snd ` set trace2 \<subseteq> {None}" by auto
  from out failed run down ok run2 up show ?thesis by simp
qed

text \<open>
  C10: \<^verbatim>\<open>searchSitesInHub\<close> issues one search with a row limit of 500. When it is
  answered, the returned object has exactly the SiteIds of the results as its keys and
  maps each to the Title of the last result with that SiteId: of two results with the
  same SiteId, the later one's Title is the one in the map.
\<close>

theorem C10_searchSitesInHub_last_title_wins:
  assumes "search W (hub_query siteId) = Inr rs"
  shows "\<exists>sites.
      searchSitesInHub W siteId = (Inr sites, [(Search (hub_query siteId), None)])
    \<and> RowLimit (hub_query siteId) = 500
    \<and> dom sites = SiteId ` set rs
    \<and> (\<forall>k. sites k = map_option Title (find (\<lambda>r. SiteId r = k) (rev rs)))
    \<and> (\<forall>pre earlier mid later post.
          rs = pre @ earlier # mid @ later # post \<longrightarrow> SiteId earlier = SiteId later
          \<longrightarrow> SiteId later \<notin> SiteId ` set post
          \<longrightarrow> sites (SiteId earlier) = Some (Title later))"
proof -
  from assms have run: "searchSitesInHub W siteId =
      (Inr (last_title rs), [(Search (hub_query siteId), None)])"
    by (simp add: searchSitesInHub_def Let_def sites_last_title)
  have limit: "RowLimit (hub_query siteId) = 500" by (simp add: hub_query_def)
  have keys: "dom (last_title rs) = SiteId ` set rs" by (rule dom_last_title)
  have last: "\<forall>k. last_title rs k = map_option Title (find (\<lambda>r. SiteId r = k) (rev rs))"
    by (simp add: last_title_def)
  have later: "last_title rs (SiteId earlier) = Some (Title later)"
    if "rs = pre @ earlier # mid @ later # post" "SiteId earlier = SiteId later"
      "SiteId later \<notin> SiteId ` set post" for pre earlier mid later post
  proof -
    from that(3)
    have "last_title ((pre @ earlier # mid) @ later # post) (SiteId later) = Some (Title later)"
      by (rule last_title_later)
    with that(1,2) show ?thesis by simp
  qed
  from run limit keys last later show ?thesis by blast
qed

theorem C10_witness:
  "search ex_world (hub_query ''hub'') = Inr ex_search_results
   \<and> ex_search_results =
       [] @ \<lparr> SiteId = ''s1'', Title = ''Old name'' \<rparr> # [\<lparr> SiteId = ''s2'', Title = [] \<rparr>]
          @ \<lparr> SiteId = ''s1'', Title = ''Alpha'' \<rparr> # []
   \<and> (\<exists>sites. fst (searchSitesInHub ex_world ''hub'') = Inr sites
         \<and> sites ''s1'' = Some ''Alpha'' \<and> dom sites = {''s1'', ''s2''})"
proof -
  have s: "search ex_world (hub_query ''hub'') = Inr ex_search_results"
    by (simp add: ex_world_def)
  have shape: "ex_search_results =
       [] @ \<lparr> SiteId = ''s1'', Title = ''Old name'' \<rparr> # [\<lparr> SiteId = ''s2'', Title = [] \<rparr>]
          @ \<lparr> SiteId = ''s1'', Title = ''Alpha'' \<rparr> # []"
    by (simp add: ex_search_results_def)
  from C10_searchSitesInHub_last_title_wins [OF s] obtain sites where
    run: "searchSitesInHub ex_world ''hub'' = (Inr sites, [(Search (hub_query ''hub''), None)])"
    and keys: "dom sites = SiteId ` set ex_search_results"
    and later: "\<forall>pre earlier mid later post.
          ex_search_results = pre @ earlier # mid @ later # post \<longrightarrow> SiteId earlier = SiteId later
          \<longrightarrow> SiteId later \<notin> SiteId ` set post
          \<longrightarrow> sites (SiteId earlier) = Some (Title later)"
    by blast
  from later [rule_format, OF shape] have "sites ''s1'' = Some ''Alpha''" by simp
  moreover from keys have "dom sites = {''s1'', ''s2''}"
    by (auto simp: ex_search_results_def)
  ultimately show ?thesis using s shape run by simp
qed

section \<open>Claims about StatusColumn\<close>

text \<open>
  C6: for every status value, the component renders one Icon per entry of
  \<^verbatim>\<open>status.sections\<close>, in order: the i-th icon uses the i-th section's iconName and
  color. All icons sit inside the tooltip host, whose content callback renders the
  status tooltip for the same status.
\<close>

theorem C6_one_icon_per_section:
  "length (rendered_icons (StatusColumn props status)) = length (sections status)
   \<and> map icon_iconName (rendered_icons (StatusColumn props status)) = map iconName (sections status)
   \<and> map (style_color \<circ> icon_styles_root) (rendered_icons (StatusColumn props status))
       = map color (sections status)
   \<and> onRenderContent (StatusColumn props status) () = \<lparr> tooltip_status = status \<rparr>"
  by (simp add: StatusColumn_def rendered_icons_def section_icon_def comp_def)

text \<open>
  C8: the tooltip host is hidden exactly when \<^verbatim>\<open>showTooltip\<close> is falsy, and the
  icons do not depend on \<^verbatim>\<open>showTooltip\<close>: changing it to any value \<open>v\<close> leaves
  the rendered icons as they are, one per section.
\<close>

theorem C8_showTooltip_hides_only_tooltip:
  "hidden (StatusColumn props status) = (\<not> truthy (showTooltip props))
   \<and> rendered_icons (StatusColumn (props\<lparr>showTooltip := v\<rparr>) status)
       = rendered_icons (StatusColumn props status)
   \<and> length (rendered_icons (StatusColumn props status)) = length (sections status)"
  by (simp add: StatusColumn_def rendered_icons_def section_icon_def)

text \<open>
  C9: every icon's right padding is \<^verbatim>\<open>properties.columnIconGap\<close> when that value is
  truthy and 8 otherwise; a configured gap of 0 gives 8.
\<close>

theorem C9_paddingRight_default:
  "map (paddingRight \<circ> icon_styles_root) (rendered_icons (StatusColumn props status))
     = replicate (length (sections status))
         (if truthy (columnIconGap props) then columnIconGap props else Num 8)
   \<and> map (paddingRight \<circ> icon_styles_root)
         (rendered_icons (StatusColumn (props\<lparr>columnIconGap := Num 0\<rparr>) status))
     = replicate (length (sections status)) (Num 8)"
  by (simp add: StatusColumn_def rendered_icons_def section_icon_def js_or_def comp_def
      map_replicate_const)

end
